theory Spec2Isabelle
  imports Main
begin

section \<open>JavaScript values and the raw specification object\<close>

text \<open>
  The constructors of \<open>src/dfa.js\<close> receive an arbitrary JavaScript object and inspect it
  with \<open>typeof\<close>, truthiness tests, \<open>.length\<close> and \<open>.forEach\<close>. The values those tests
  can tell apart are modelled by \<open>jsval\<close>: \<open>JObj\<close> stands for any other object (it has
  neither \<open>length\<close> nor \<open>forEach\<close>), and a number is an integer because only its
  truthiness and its type are ever looked at.

  Strings are lists of 8-bit characters, so the whitespace that \<open>String.prototype.trim\<close>
  removes is the part of it below U+0100.

  The transition tables are plain objects used as dictionaries, read and written with
  \<open>result[key]\<close>. Such an access also sees what the object inherits from
  \<open>Object.prototype\<close>, and a write through an inherited object changes an object that
  every automaton shares. The built-in objects are therefore part of the model: a heap, which
  every constructor and every call of \<open>transition\<close> takes as it is at that time.
\<close>

datatype jsval =
    JUndefined
  | JNull
  | JBool bool
  | JNum int
  | JStr string
  | JArr "jsval list"
  | JObj

fun truthy :: "jsval \<Rightarrow> bool" where
  "truthy JUndefined = False"
| "truthy JNull = False"
| "truthy (JBool b) = b"
| "truthy (JNum n) = (n \<noteq> 0)"
| "truthy (JStr s) = (s \<noteq> [])"
| "truthy (JArr xs) = True"
| "truthy JObj = True"

definition isWhiteSpace :: "char \<Rightarrow> bool" where
  "isWhiteSpace c = (of_char c \<in> {9, 10, 11, 12, 13, 32, 160 :: nat})"

definition trim :: "string \<Rightarrow> string" where
  "trim s = rev (dropWhile isWhiteSpace (rev (dropWhile isWhiteSpace s)))"

text \<open>\<open>Set.prototype.has\<close> on a set of strings: no other value is ever a member.\<close>

fun has :: "string set \<Rightarrow> jsval \<Rightarrow> bool" where
  "has S (JStr s) = (s \<in> S)"
| "has S v = False"

record spec =
  alphabet :: jsval
  states :: jsval
  initialState :: jsval
  finalStates :: jsval
  transitions :: jsval

text \<open>
  Every \<open>throw new Error(...)\<close> of the source is one constructor; \<open>JSTypeError\<close> is the
  native \<open>TypeError\<close> raised when something that is not a function is called or a
  property is read from \<open>undefined\<close> or \<open>null\<close>. \<open>UnmodelledOperation\<close> is no
  exception of the program: it marks a step that leaves the heap model below.
\<close>

datatype error =
    ObjectNotDefined
  | AlphabetNotDefined
  | StatesNotDefined
  | InitialStateNotDefined
  | FinalStatesNotDefined
  | TransitionsNotDefined
  | AlphabetNotString jsval
  | AlphabetDuplicate string
  | AlphabetWhitespace
  | StatesNotString jsval
  | StatesDuplicate string
  | StatesWhitespace
  | InitialStateNotString jsval
  | InitialStateNotValid
  | InitialStateWhitespace
  | FinalStatesNotString jsval
  | FinalStatesDuplicate string
  | FinalStatesNotDefinedState string
  | TransitionNotTuple jsval
  | TransitionElementNotString nat jsval
  | TransitionFirstNotState string
  | TransitionSecondNotState string
  | TransitionThirdNotSymbol string
  | NonDeterministic string string string
  | SymbolNotValid jsval
  | JSTypeError
  | UnmodelledOperation

section \<open>Validation of the specification\<close>

text \<open>The argument of a constructor is \<open>None\<close> when it is falsy.\<close>

definition validateDFAProperties :: "spec option \<Rightarrow> error + unit" where
  "validateDFAProperties dfa =
     (case dfa of
        None \<Rightarrow> Inl ObjectNotDefined
      | Some d \<Rightarrow>
          if \<not> truthy (spec.alphabet d) then Inl AlphabetNotDefined
          else if \<not> truthy (spec.states d) then Inl StatesNotDefined
          else if \<not> truthy (spec.initialState d) then Inl InitialStateNotDefined
          else if \<not> truthy (spec.finalStates d) then Inl FinalStatesNotDefined
          else if \<not> truthy (spec.transitions d) then Inl TransitionsNotDefined
          else Inr ())"

fun validateAlphabet_forEach :: "jsval list \<Rightarrow> string set \<Rightarrow> error + string set" where
  "validateAlphabet_forEach [] result = Inr result"
| "validateAlphabet_forEach (x # xs) result =
     (case x of
        JStr s \<Rightarrow>
          if s \<in> result then Inl (AlphabetDuplicate s)
          else if length (trim s) = 0 then Inl AlphabetWhitespace
          else validateAlphabet_forEach xs (insert s result)
      | _ \<Rightarrow> Inl (AlphabetNotString x))"

definition validateAlphabet :: "spec \<Rightarrow> error + string set" where
  "validateAlphabet dfa =
     (case spec.alphabet dfa of
        JArr xs \<Rightarrow> validateAlphabet_forEach xs {}
      | _ \<Rightarrow> Inl JSTypeError)"

fun validateStates_forEach :: "jsval list \<Rightarrow> string set \<Rightarrow> error + string set" where
  "validateStates_forEach [] result = Inr result"
| "validateStates_forEach (x # xs) result =
     (case x of
        JStr s \<Rightarrow>
          if s \<in> result then Inl (StatesDuplicate s)
          else if length (trim s) = 0 then Inl StatesWhitespace
          else validateStates_forEach xs (insert s result)
      | _ \<Rightarrow> Inl (StatesNotString x))"

definition validateStates :: "spec \<Rightarrow> error + string set" where
  "validateStates dfa =
     (case spec.states dfa of
        JArr xs \<Rightarrow> validateStates_forEach xs {}
      | _ \<Rightarrow> Inl JSTypeError)"

definition validateInitialState :: "spec \<Rightarrow> string set \<Rightarrow> error + unit" where
  "validateInitialState dfa sts =
     (case spec.initialState dfa of
        JStr s \<Rightarrow>
          if s \<notin> sts then Inl InitialStateNotValid
          else if length (trim s) = 0 then Inl InitialStateWhitespace
          else Inr ()
      | v \<Rightarrow> Inl (InitialStateNotString v))"

fun validateFinalStates_forEach ::
  "string set \<Rightarrow> jsval list \<Rightarrow> string set \<Rightarrow> error + string set" where
  "validateFinalStates_forEach sts [] result = Inr result"
| "validateFinalStates_forEach sts (x # xs) result =
     (case x of
        JStr s \<Rightarrow>
          if s \<in> result then Inl (FinalStatesDuplicate s)
          else if s \<notin> sts then Inl (FinalStatesNotDefinedState s)
          else validateFinalStates_forEach sts xs (insert s result)
      | _ \<Rightarrow> Inl (FinalStatesNotString x))"

definition validateFinalStates :: "spec \<Rightarrow> string set \<Rightarrow> error + string set" where
  "validateFinalStates dfa sts =
     (case spec.finalStates dfa of
        JArr xs \<Rightarrow> validateFinalStates_forEach sts xs {}
      | _ \<Rightarrow> Inl JSTypeError)"

section \<open>Transition tuples\<close>

text \<open>
  The inner \<open>x.forEach((y, i) => ...)\<close>: the first element that is not a string raises,
  with its index. When none does, the elements are returned as strings.
\<close>

fun tupleStrings :: "nat \<Rightarrow> jsval list \<Rightarrow> error + string list" where
  "tupleStrings i [] = Inr []"
| "tupleStrings i (y # ys) =
     (case y of
        JStr s \<Rightarrow> (case tupleStrings (Suc i) ys of
                     Inl e \<Rightarrow> Inl e
                   | Inr ss \<Rightarrow> Inr (s # ss))
      | _ \<Rightarrow> Inl (TransitionElementNotString i y))"

text \<open>
  The shape and membership checks on one transition \<open>x\<close>, which \<open>validateTransitionsDFA\<close>
  and \<open>validateTransitionsNFA\<close> both perform, in the same words, before they touch the
  table. The result is \<open>(x[0], x[1], x[2])\<close>: from, to, symbol.
  A string of length three passes the length test and then has no \<open>forEach\<close>; a number or
  another object has no \<open>length\<close>, and \<open>undefined !== 3\<close>.
\<close>

definition checkTransition ::
  "string set \<Rightarrow> string set \<Rightarrow> jsval \<Rightarrow> error + (string \<times> string \<times> string)" where
  "checkTransition sts alph x =
     (case x of
        JUndefined \<Rightarrow> Inl JSTypeError
      | JNull \<Rightarrow> Inl JSTypeError
      | JStr s \<Rightarrow> if length s \<noteq> 3 then Inl (TransitionNotTuple x) else Inl JSTypeError
      | JArr ys \<Rightarrow>
          if length ys \<noteq> 3 then Inl (TransitionNotTuple x)
          else (case tupleStrings 0 ys of
                  Inl e \<Rightarrow> Inl e
                | Inr ss \<Rightarrow>
                    (case ss of
                       [x0, x1, x2] \<Rightarrow>
                         if x0 \<notin> sts then Inl (TransitionFirstNotState x0)
                         else if x1 \<notin> sts then Inl (TransitionSecondNotState x1)
                         else if x2 \<notin> alph then Inl (TransitionThirdNotSymbol x2)
                         else Inr (x0, x1, x2)
                     | _ \<Rightarrow> Inl JSTypeError))
      | _ \<Rightarrow> Inl (TransitionNotTuple x))"

section \<open>The heap of built-in and shared objects\<close>

text \<open>
  A value that a property can hold. Numbers are integers: the only numbers that the
  program can read are lengths.
\<close>

datatype val = Undefined | Null | Bool bool | Num int | Str string | Ref nat

text \<open>
  What calling a function object does. Only \<open>Array.prototype.push\<close> and
  \<open>Array.prototype.forEach\<close> are ever called through a property that the program has read;
  a call of any other function is not modelled.
\<close>

datatype behaviour = ArrayPush | ArrayForEach | OtherBehaviour

datatype kind = OrdinaryObject | ArrayObject nat | FunctionObject behaviour

text \<open>
  A property is a writable data property, the accessor \<open>__proto__\<close> of
  \<open>Object.prototype\<close>, or an accessor whose getter and setter throw (\<open>caller\<close> and
  \<open>arguments\<close> of \<open>Function.prototype\<close>).
\<close>

datatype property = Data val | ProtoAccessor | ThrowingAccessor

text \<open>
  An object: its own properties, its prototype (\<open>Ref\<close> or \<open>Null\<close>) and the string it
  converts to when it is used as a property key (\<open>[object Object]\<close> for a plain object,
  the source text for a function). An array holds its length in its kind and its elements
  under their decimal indices; it converts to its joined elements instead.
\<close>

record obj =
  kind :: kind
  props :: "string \<rightharpoonup> property"
  proto :: val
  asKey :: string

text \<open>
  The heap: the objects by address, the first address not yet in use, and the addresses of
  the prototypes that object literals, array literals and primitive values are given.
  An object's prototype sits at a lower address than the object.
\<close>

record heap =
  objects :: "nat \<Rightarrow> obj"
  free :: nat
  objectPrototype :: nat
  arrayPrototype :: nat
  stringPrototype :: nat
  numberPrototype :: nat
  booleanPrototype :: nat

subsection \<open>Decimal numerals and array indices\<close>

function decimal :: "nat \<Rightarrow> string" where
  "decimal n = (if n < 10 then [''0123456789'' ! n]
                else decimal (n div 10) @ [''0123456789'' ! (n mod 10)])"
  by pat_completeness auto
termination
  by (relation "measure (\<lambda>n. n)") auto

definition digitValue :: "char \<Rightarrow> nat option" where
  "digitValue c = map_of (zip ''0123456789'' [0, 1, 2, 3, 4, 5, 6, 7, 8, 9]) c"

fun parseDigits :: "string \<Rightarrow> nat \<Rightarrow> nat option" where
  "parseDigits [] acc = Some acc"
| "parseDigits (c # cs) acc =
     (case digitValue c of
        None \<Rightarrow> None
      | Some d \<Rightarrow> parseDigits cs (10 * acc + d))"

text \<open>A key is an array index when it is the decimal numeral of a number below
  \<open>2^32 - 1\<close>.\<close>

definition arrayIndex :: "string \<Rightarrow> nat option" where
  "arrayIndex k =
     (if k = [] then None
      else if hd k = CHR ''0'' \<and> tl k \<noteq> [] then None
      else (case parseDigits k 0 of
              None \<Rightarrow> None
            | Some n \<Rightarrow> if n < 4294967295 then Some n else None))"

definition numberKey :: "int \<Rightarrow> string" where
  "numberKey n = (if n < 0 then CHR ''-'' # decimal (nat (- n)) else decimal (nat n))"

subsection \<open>Reading a property\<close>

definition ownProperty :: "obj \<Rightarrow> string \<Rightarrow> property option" where
  "ownProperty ob k =
     (case kind ob of
        ArrayObject n \<Rightarrow> if k = ''length'' then Some (Data (Num (int n))) else props ob k
      | _ \<Rightarrow> props ob k)"

text \<open>The property that the object at \<open>r\<close> has or inherits under the key.\<close>

function findProperty :: "heap \<Rightarrow> nat \<Rightarrow> string \<Rightarrow> property option" where
  "findProperty h r k =
     (case ownProperty (objects h r) k of
        Some p \<Rightarrow> Some p
      | None \<Rightarrow>
          (case proto (objects h r) of
             Ref p \<Rightarrow> if p < r then findProperty h p k else None
           | _ \<Rightarrow> None))"
  by pat_completeness auto
termination
  by (relation "measure (\<lambda>(h, r, k). r)") auto

text \<open>What a found property reads as, for a receiver whose prototype is \<open>rp\<close>.\<close>

definition readProperty :: "val \<Rightarrow> property option \<Rightarrow> error + val" where
  "readProperty rp p =
     (case p of
        None \<Rightarrow> Inr Undefined
      | Some (Data v) \<Rightarrow> Inr v
      | Some ProtoAccessor \<Rightarrow> Inr rp
      | Some ThrowingAccessor \<Rightarrow> Inl JSTypeError)"

text \<open>The own properties of a primitive string: its characters and its length.\<close>

definition stringOwn :: "string \<Rightarrow> string \<Rightarrow> val option" where
  "stringOwn s k =
     (if k = ''length'' then Some (Num (int (length s)))
      else (case arrayIndex k of
              Some i \<Rightarrow> if i < length s then Some (Str [s ! i]) else None
            | None \<Rightarrow> None))"

text \<open>\<open>v[k]\<close> for a value \<open>v\<close> that lives in the heap or is primitive.\<close>

definition getProperty :: "heap \<Rightarrow> val \<Rightarrow> string \<Rightarrow> error + val" where
  "getProperty h v k =
     (case v of
        Undefined \<Rightarrow> Inl JSTypeError
      | Null \<Rightarrow> Inl JSTypeError
      | Ref r \<Rightarrow> readProperty (proto (objects h r)) (findProperty h r k)
      | Str s \<Rightarrow>
          (case stringOwn s k of
             Some x \<Rightarrow> Inr x
           | None \<Rightarrow> readProperty (Ref (stringPrototype h)) (findProperty h (stringPrototype h) k))
      | Num n \<Rightarrow> readProperty (Ref (numberPrototype h)) (findProperty h (numberPrototype h) k)
      | Bool b \<Rightarrow> readProperty (Ref (booleanPrototype h)) (findProperty h (booleanPrototype h) k))"

text \<open>
  \<open>o[k]\<close> for a plain object \<open>o\<close> of the program (made by \<open>{}\<close>) that has no own
  property \<open>k\<close>: what it inherits from \<open>Object.prototype\<close>.
\<close>

definition inherited :: "heap \<Rightarrow> string \<Rightarrow> error + val" where
  "inherited h k =
     readProperty (Ref (objectPrototype h)) (findProperty h (objectPrototype h) k)"

subsection \<open>Writing a property\<close>

text \<open>The object at \<open>r\<close> gets the own data property; an array grows to hold an index.\<close>

definition defineOwn :: "heap \<Rightarrow> nat \<Rightarrow> string \<Rightarrow> val \<Rightarrow> heap" where
  "defineOwn h r k x =
     (let ob = objects h r;
          kd = (case kind ob of
                  ArrayObject n \<Rightarrow>
                    (case arrayIndex k of
                       Some i \<Rightarrow> ArrayObject (max n (Suc i))
                     | None \<Rightarrow> ArrayObject n)
                | other \<Rightarrow> other)
      in h\<lparr>objects := (objects h)(r := ob\<lparr>kind := kd, props := (props ob)(k \<mapsto> Data x)\<rparr>)\<rparr>)"

text \<open>
  \<open>v[k] = x\<close> outside strict mode. A write to a primitive value is dropped. The setter of
  \<open>__proto__\<close> ignores a value that is neither an object nor \<open>null\<close>; giving an object a
  new prototype, and assigning to the length of an array, are not modelled (the program
  assigns only where it has read \<open>undefined\<close>, which neither property reads as).
\<close>

definition setProperty :: "heap \<Rightarrow> val \<Rightarrow> string \<Rightarrow> val \<Rightarrow> error + heap" where
  "setProperty h v k x =
     (case v of
        Undefined \<Rightarrow> Inl JSTypeError
      | Null \<Rightarrow> Inl JSTypeError
      | Ref r \<Rightarrow>
          (case findProperty h r k of
             Some ThrowingAccessor \<Rightarrow> Inl JSTypeError
           | Some ProtoAccessor \<Rightarrow>
               (case x of
                  Ref p \<Rightarrow> Inl UnmodelledOperation
                | Null \<Rightarrow> Inl UnmodelledOperation
                | _ \<Rightarrow> Inr h)
           | _ \<Rightarrow>
               (case kind (objects h r) of
                  ArrayObject n \<Rightarrow>
                    if k = ''length'' then Inl UnmodelledOperation else Inr (defineOwn h r k x)
                | _ \<Rightarrow> Inr (defineOwn h r k x)))
      | _ \<Rightarrow> Inr h)"

text \<open>\<open>[]\<close>: a new empty array at the first free address.\<close>

definition newArray :: "heap \<Rightarrow> nat \<times> heap" where
  "newArray h =
     (free h,
      h\<lparr>objects := (objects h)(free h :=
             \<lparr>kind = ArrayObject 0, props = Map.empty, proto = Ref (arrayPrototype h),
              asKey = []\<rparr>),
        free := Suc (free h)\<rparr>)"

subsection \<open>Calling \<open>push\<close> and \<open>forEach\<close> on a value read from the heap\<close>

definition behaviourOf :: "heap \<Rightarrow> val \<Rightarrow> behaviour option" where
  "behaviourOf h f =
     (case f of
        Ref r \<Rightarrow> (case kind (objects h r) of FunctionObject b \<Rightarrow> Some b | _ \<Rightarrow> None)
      | _ \<Rightarrow> None)"

text \<open>
  \<open>v.push(x)\<close>: the method is looked up on \<open>v\<close>; what is not a function cannot be called.
  \<open>Array.prototype.push\<close> is modelled on arrays.
\<close>

definition callPush :: "heap \<Rightarrow> val \<Rightarrow> val \<Rightarrow> error + heap" where
  "callPush h v x =
     (case getProperty h v ''push'' of
        Inl e \<Rightarrow> Inl e
      | Inr f \<Rightarrow>
          (case behaviourOf h f of
             None \<Rightarrow> Inl JSTypeError
           | Some ArrayPush \<Rightarrow>
               (case v of
                  Ref r \<Rightarrow>
                    (case kind (objects h r) of
                       ArrayObject n \<Rightarrow> Inr (defineOwn h r (decimal n) x)
                     | _ \<Rightarrow> Inl UnmodelledOperation)
                | _ \<Rightarrow> Inl UnmodelledOperation)
           | Some _ \<Rightarrow> Inl UnmodelledOperation))"

text \<open>The values that \<open>forEach\<close> passes to its callback: those of the indices below the
  length that the array has or inherits, in order.\<close>

fun arrayValues :: "heap \<Rightarrow> nat \<Rightarrow> nat list \<Rightarrow> error + val list" where
  "arrayValues h r [] = Inr []"
| "arrayValues h r (i # is) =
     (case findProperty h r (decimal i) of
        None \<Rightarrow> arrayValues h r is
      | Some p \<Rightarrow>
          (case readProperty (proto (objects h r)) (Some p) of
             Inl e \<Rightarrow> Inl e
           | Inr y \<Rightarrow>
               (case arrayValues h r is of
                  Inl e \<Rightarrow> Inl e
                | Inr ys \<Rightarrow> Inr (y # ys))))"

definition callForEach :: "heap \<Rightarrow> val \<Rightarrow> error + val list" where
  "callForEach h v =
     (case getProperty h v ''forEach'' of
        Inl e \<Rightarrow> Inl e
      | Inr f \<Rightarrow>
          (case behaviourOf h f of
             None \<Rightarrow> Inl JSTypeError
           | Some ArrayForEach \<Rightarrow>
               (case v of
                  Ref r \<Rightarrow>
                    (case kind (objects h r) of
                       ArrayObject n \<Rightarrow> arrayValues h r [0..<n]
                     | _ \<Rightarrow> Inl UnmodelledOperation)
                | _ \<Rightarrow> Inl UnmodelledOperation)
           | Some _ \<Rightarrow> Inl UnmodelledOperation))"

subsection \<open>A value as a property key\<close>

text \<open>The string of an array element when the array is joined; an element that is an
  object would have its own conversion called, which is not modelled.\<close>

fun elementString :: "val \<Rightarrow> string option" where
  "elementString Undefined = Some []"
| "elementString Null = Some []"
| "elementString (Bool b) = Some (if b then ''true'' else ''false'')"
| "elementString (Num n) = Some (numberKey n)"
| "elementString (Str s) = Some s"
| "elementString (Ref r) = None"

fun joined :: "val list \<Rightarrow> string option" where
  "joined [] = Some []"
| "joined [y] = elementString y"
| "joined (y # ys) =
     (case elementString y of
        None \<Rightarrow> None
      | Some s \<Rightarrow> (case joined ys of None \<Rightarrow> None | Some t \<Rightarrow> Some (s @ '','' @ t)))"

fun allValues :: "heap \<Rightarrow> nat \<Rightarrow> nat list \<Rightarrow> error + val list" where
  "allValues h r [] = Inr []"
| "allValues h r (i # is) =
     (case getProperty h (Ref r) (decimal i) of
        Inl e \<Rightarrow> Inl e
      | Inr y \<Rightarrow> (case allValues h r is of Inl e \<Rightarrow> Inl e | Inr ys \<Rightarrow> Inr (y # ys)))"

text \<open>\<open>o[v]\<close> converts \<open>v\<close> to a string, with the built-in conversions.\<close>

definition toPropertyKey :: "heap \<Rightarrow> val \<Rightarrow> error + string" where
  "toPropertyKey h v =
     (case v of
        Undefined \<Rightarrow> Inr ''undefined''
      | Null \<Rightarrow> Inr ''null''
      | Bool b \<Rightarrow> Inr (if b then ''true'' else ''false'')
      | Num n \<Rightarrow> Inr (numberKey n)
      | Str s \<Rightarrow> Inr s
      | Ref r \<Rightarrow>
          (case kind (objects h r) of
             ArrayObject n \<Rightarrow>
               (case allValues h r [0..<n] of
                  Inl e \<Rightarrow> Inl e
                | Inr ys \<Rightarrow>
                    (case joined ys of
                       None \<Rightarrow> Inl UnmodelledOperation
                     | Some s \<Rightarrow> Inr s))
           | _ \<Rightarrow> Inr (asKey (objects h r))))"

section \<open>Plain objects of the program\<close>

text \<open>
  A transition table and its rows are made by \<open>{}\<close> and are reachable from their
  automaton only, so their own properties are kept with the automaton, as a map. A read under
  a key that is not an own property goes on to \<open>Object.prototype\<close>, in the heap.
\<close>

datatype 'a slot = Own 'a | Foreign val

definition plainGet :: "heap \<Rightarrow> (string \<rightharpoonup> 'a) \<Rightarrow> string \<Rightarrow> error + 'a slot" where
  "plainGet h ob k =
     (case ob k of
        Some x \<Rightarrow> Inr (Own x)
      | None \<Rightarrow> (case inherited h k of Inl e \<Rightarrow> Inl e | Inr v \<Rightarrow> Inr (Foreign v)))"

text \<open>
  \<open>o[k] = x\<close> on such an object. An inherited setter is called instead of creating the
  property: the one of \<open>__proto__\<close> ignores a string and would replace the prototype by
  an object, which is not modelled.
\<close>

definition plainSet ::
  "heap \<Rightarrow> bool \<Rightarrow> (string \<rightharpoonup> 'a) \<Rightarrow> string \<Rightarrow> 'a \<Rightarrow> error + (string \<rightharpoonup> 'a)" where
  "plainSet h isObject ob k x =
     (case ob k of
        Some y \<Rightarrow> Inr (ob(k \<mapsto> x))
      | None \<Rightarrow>
          (case findProperty h (objectPrototype h) k of
             Some ThrowingAccessor \<Rightarrow> Inl JSTypeError
           | Some ProtoAccessor \<Rightarrow> if isObject then Inl UnmodelledOperation else Inr ob
           | _ \<Rightarrow> Inr (ob(k \<mapsto> x))))"

section \<open>The DFA transition table\<close>

type_synonym dfaTable = "string \<rightharpoonup> (string \<rightharpoonup> string)"

text \<open>
  One transition \<open>(x[0], x[1], x[2])\<close> that has passed the checks.
  \<open>result[x[0]] !== undefined && result[x[0]][x[2]] !== undefined\<close> raises. Otherwise a
  row is created when \<open>result[x[0]]\<close> reads \<open>undefined\<close>, and
  \<open>result[x[0]][x[2]] = x[1]\<close> writes to whatever \<open>result[x[0]]\<close> then reads as: the
  row, or an inherited object in the heap. The heap is returned as the step leaves it.
\<close>

definition dfaAddTransition ::
  "heap \<Rightarrow> dfaTable \<Rightarrow> string \<times> string \<times> string \<Rightarrow> heap \<times> (error + dfaTable)" where
  "dfaAddTransition h result x =
     (case x of (x0, x1, x2) \<Rightarrow>
        (case plainGet h result x0 of
           Inl e \<Rightarrow> (h, Inl e)
         | Inr (Own row) \<Rightarrow>
             (case plainGet h row x2 of
                Inl e \<Rightarrow> (h, Inl e)
              | Inr (Foreign Undefined) \<Rightarrow>
                  (case plainSet h False row x2 x1 of
                     Inl e \<Rightarrow> (h, Inl e)
                   | Inr row' \<Rightarrow> (h, Inr (result(x0 \<mapsto> row'))))
              | Inr defined \<Rightarrow> (h, Inl (NonDeterministic x0 x1 x2)))
         | Inr (Foreign Undefined) \<Rightarrow>
             (case plainSet h True result x0 Map.empty of
                Inl e \<Rightarrow> (h, Inl e)
              | Inr result' \<Rightarrow>
                  (case plainSet h False Map.empty x2 x1 of
                     Inl e \<Rightarrow> (h, Inl e)
                   | Inr row' \<Rightarrow> (h, Inr (result'(x0 \<mapsto> row')))))
         | Inr (Foreign v) \<Rightarrow>
             (case getProperty h v x2 of
                Inl e \<Rightarrow> (h, Inl e)
              | Inr Undefined \<Rightarrow>
                  (case setProperty h v x2 (Str x1) of
                     Inl e \<Rightarrow> (h, Inl e)
                   | Inr h' \<Rightarrow> (h', Inr result))
              | Inr defined \<Rightarrow> (h, Inl (NonDeterministic x0 x1 x2)))))"

fun validateTransitionsDFA_forEach ::
  "string set \<Rightarrow> string set \<Rightarrow> jsval list \<Rightarrow> heap \<Rightarrow> dfaTable \<Rightarrow> heap \<times> (error + dfaTable)" where
  "validateTransitionsDFA_forEach sts alph [] h result = (h, Inr result)"
| "validateTransitionsDFA_forEach sts alph (x # xs) h result =
     (case checkTransition sts alph x of
        Inl e \<Rightarrow> (h, Inl e)
      | Inr t \<Rightarrow>
          (case dfaAddTransition h result t of
             (h', Inl e) \<Rightarrow> (h', Inl e)
           | (h', Inr result') \<Rightarrow> validateTransitionsDFA_forEach sts alph xs h' result'))"

definition validateTransitionsDFA ::
  "heap \<Rightarrow> spec \<Rightarrow> string set \<Rightarrow> string set \<Rightarrow> heap \<times> (error + dfaTable)" where
  "validateTransitionsDFA h dfa sts alph =
     (case spec.transitions dfa of
        JArr xs \<Rightarrow> validateTransitionsDFA_forEach sts alph xs h Map.empty
      | _ \<Rightarrow> (h, Inl JSTypeError))"

section \<open>The NFA transition table\<close>

text \<open>An own entry of an own row is an array made by \<open>[]\<close>, reachable from its automaton
  only: the list of its elements.\<close>

type_synonym nfaTable = "string \<rightharpoonup> (string \<rightharpoonup> string list)"

text \<open>
  \<open>if (result[x[0]][x[2]] === undefined) result[x[0]][x[2]] = []\<close> and
  \<open>result[x[0]][x[2]].push(x[1])\<close> where \<open>result[x[0]]\<close> is an own row.
\<close>

definition nfaRowPush ::
  "heap \<Rightarrow> (string \<rightharpoonup> string list) \<Rightarrow> string \<Rightarrow> string \<Rightarrow>
     heap \<times> (error + (string \<rightharpoonup> string list))" where
  "nfaRowPush h row x2 x1 =
     (case plainGet h row x2 of
        Inl e \<Rightarrow> (h, Inl e)
      | Inr (Own ys) \<Rightarrow> (h, Inr (row(x2 \<mapsto> ys @ [x1])))
      | Inr (Foreign Undefined) \<Rightarrow>
          (case plainSet h True row x2 [] of
             Inl e \<Rightarrow> (h, Inl e)
           | Inr row' \<Rightarrow> (h, Inr (row'(x2 \<mapsto> [x1]))))
      | Inr (Foreign v) \<Rightarrow>
          (case callPush h v (Str x1) of
             Inl e \<Rightarrow> (h, Inl e)
           | Inr h' \<Rightarrow> (h', Inr row)))"

text \<open>The same two statements where \<open>result[x[0]]\<close> is an inherited value \<open>v\<close>.\<close>

definition nfaForeignPush :: "heap \<Rightarrow> val \<Rightarrow> string \<Rightarrow> string \<Rightarrow> heap \<times> (error + unit)" where
  "nfaForeignPush h v x2 x1 =
     (case getProperty h v x2 of
        Inl e \<Rightarrow> (h, Inl e)
      | Inr Undefined \<Rightarrow>
          (case newArray h of (a, h1) \<Rightarrow>
             (case setProperty h1 v x2 (Ref a) of
                Inl e \<Rightarrow> (h1, Inl e)
              | Inr h2 \<Rightarrow>
                  (case getProperty h2 v x2 of
                     Inl e \<Rightarrow> (h2, Inl e)
                   | Inr target \<Rightarrow>
                       (case callPush h2 target (Str x1) of
                          Inl e \<Rightarrow> (h2, Inl e)
                        | Inr h3 \<Rightarrow> (h3, Inr ())))))
      | Inr target \<Rightarrow>
          (case callPush h target (Str x1) of
             Inl e \<Rightarrow> (h, Inl e)
           | Inr h' \<Rightarrow> (h', Inr ())))"

text \<open>
  One transition that has passed the checks: the row is created when \<open>result[x[0]]\<close>
  reads \<open>undefined\<close>, then the two statements above run on what it reads as.
\<close>

definition nfaAddTransition ::
  "heap \<Rightarrow> nfaTable \<Rightarrow> string \<times> string \<times> string \<Rightarrow> heap \<times> (error + nfaTable)" where
  "nfaAddTransition h result x =
     (case x of (x0, x1, x2) \<Rightarrow>
        (case plainGet h result x0 of
           Inl e \<Rightarrow> (h, Inl e)
         | Inr (Own row) \<Rightarrow>
             (case nfaRowPush h row x2 x1 of
                (h', Inl e) \<Rightarrow> (h', Inl e)
              | (h', Inr row') \<Rightarrow> (h', Inr (result(x0 \<mapsto> row'))))
         | Inr (Foreign Undefined) \<Rightarrow>
             (case plainSet h True result x0 Map.empty of
                Inl e \<Rightarrow> (h, Inl e)
              | Inr result' \<Rightarrow>
                  (case nfaRowPush h Map.empty x2 x1 of
                     (h', Inl e) \<Rightarrow> (h', Inl e)
                   | (h', Inr row') \<Rightarrow> (h', Inr (result'(x0 \<mapsto> row')))))
         | Inr (Foreign v) \<Rightarrow>
             (case nfaForeignPush h v x2 x1 of
                (h', Inl e) \<Rightarrow> (h', Inl e)
              | (h', Inr u) \<Rightarrow> (h', Inr result))))"

fun validateTransitionsNFA_forEach ::
  "string set \<Rightarrow> string set \<Rightarrow> jsval list \<Rightarrow> heap \<Rightarrow> nfaTable \<Rightarrow> heap \<times> (error + nfaTable)" where
  "validateTransitionsNFA_forEach sts alph [] h result = (h, Inr result)"
| "validateTransitionsNFA_forEach sts alph (x # xs) h result =
     (case checkTransition sts alph x of
        Inl e \<Rightarrow> (h, Inl e)
      | Inr t \<Rightarrow>
          (case nfaAddTransition h result t of
             (h', Inl e) \<Rightarrow> (h', Inl e)
           | (h', Inr result') \<Rightarrow> validateTransitionsNFA_forEach sts alph xs h' result'))"

definition validateTransitionsNFA ::
  "heap \<Rightarrow> spec \<Rightarrow> string set \<Rightarrow> string set \<Rightarrow> heap \<times> (error + nfaTable)" where
  "validateTransitionsNFA h dfa sts alph =
     (case spec.transitions dfa of
        JArr xs \<Rightarrow> validateTransitionsNFA_forEach sts alph xs h Map.empty
      | _ \<Rightarrow> (h, Inl JSTypeError))"

section \<open>The DFA class\<close>

text \<open>
  \<open>currentState\<close> holds a value or an instance of the class \<open>ErrorState\<close>. The instance
  is kept apart from the heap: nothing stores it there, it is a member of no set of strings,
  and as a property key it converts to \<open>[object Object]\<close>.
\<close>

datatype stateval = State val | ErrorState

definition stateKey :: "heap \<Rightarrow> stateval \<Rightarrow> error + string" where
  "stateKey h s = (case s of State v \<Rightarrow> toPropertyKey h v | ErrorState \<Rightarrow> Inr ''[object Object]'')"

text \<open>\<open>Set.prototype.has\<close> on a set of strings, for a value and for a current state.\<close>

fun hasVal :: "string set \<Rightarrow> val \<Rightarrow> bool" where
  "hasVal S (Str s) = (s \<in> S)"
| "hasVal S v = False"

fun hasState :: "string set \<Rightarrow> stateval \<Rightarrow> bool" where
  "hasState S (State v) = hasVal S v"
| "hasState S ErrorState = False"

record dfa =
  alphabet :: "string set"
  states :: "string set"
  initialState :: string
  finalStates :: "string set"
  transitions :: dfaTable
  currentState :: stateval
  isInErrorState :: bool

text \<open>
  The constructor, in the heap \<open>h\<close> of its time; it returns the heap as it leaves it.
  \<open>validateInitialState\<close> has let through a string only, which is what
  \<open>this.initialState\<close> then holds.
\<close>

definition DFA_constructor :: "heap \<Rightarrow> spec option \<Rightarrow> heap \<times> (error + dfa)" where
  "DFA_constructor h arg =
     (case validateDFAProperties arg of
        Inl e \<Rightarrow> (h, Inl e)
      | Inr u \<Rightarrow>
     (case arg of
        None \<Rightarrow> (h, Inl ObjectNotDefined)
      | Some d \<Rightarrow>
     (case validateAlphabet d of
        Inl e \<Rightarrow> (h, Inl e)
      | Inr alph \<Rightarrow>
     (case validateStates d of
        Inl e \<Rightarrow> (h, Inl e)
      | Inr sts \<Rightarrow>
     (case validateInitialState d sts of
        Inl e \<Rightarrow> (h, Inl e)
      | Inr u \<Rightarrow>
     (case spec.initialState d of
        JStr init \<Rightarrow>
          (case validateFinalStates d sts of
             Inl e \<Rightarrow> (h, Inl e)
           | Inr fin \<Rightarrow>
          (case validateTransitionsDFA h d sts alph of
             (h', Inl e) \<Rightarrow> (h', Inl e)
           | (h', Inr tbl) \<Rightarrow>
               (h', Inr \<lparr>dfa.alphabet = alph, dfa.states = sts, dfa.initialState = init,
                         dfa.finalStates = fin, dfa.transitions = tbl,
                         currentState = State (Str init), isInErrorState = False\<rparr>)))
      | v \<Rightarrow> (h, Inl (InitialStateNotString v))))))))"

definition DFA_getCurrentState :: "dfa \<Rightarrow> stateval" where
  "DFA_getCurrentState this = currentState this"

definition DFA_isAcceptingState :: "dfa \<Rightarrow> bool" where
  "DFA_isAcceptingState this = hasState (dfa.finalStates this) (currentState this)"

definition DFA_isErrorState :: "dfa \<Rightarrow> bool" where
  "DFA_isErrorState this = isInErrorState this"

text \<open>
  \<open>this.transitions[this.currentState][input]\<close>, with
  \<open>this.transitions[this.currentState] === undefined\<close> tested first: \<open>undefined\<close> when
  either read is, the value otherwise.
\<close>

definition dfaRead :: "heap \<Rightarrow> dfaTable \<Rightarrow> string \<Rightarrow> string \<Rightarrow> error + val" where
  "dfaRead h tbl key a =
     (case plainGet h tbl key of
        Inl e \<Rightarrow> Inl e
      | Inr (Foreign Undefined) \<Rightarrow> Inr Undefined
      | Inr (Own row) \<Rightarrow>
          (case plainGet h row a of
             Inl e \<Rightarrow> Inl e
           | Inr (Own t) \<Rightarrow> Inr (Str t)
           | Inr (Foreign v) \<Rightarrow> Inr v)
      | Inr (Foreign v) \<Rightarrow> getProperty h v a)"

text \<open>
  \<open>transition\<close> in the heap \<open>h\<close> of its time, which it only reads. It returns the
  object after the call, or the error thrown; every \<open>throw\<close> comes before any assignment,
  so a call that throws leaves the object as it was.
\<close>

definition DFA_transition :: "heap \<Rightarrow> dfa \<Rightarrow> jsval \<Rightarrow> error + dfa" where
  "DFA_transition h this input =
     (if \<not> has (dfa.alphabet this) input then Inl (SymbolNotValid input)
      else if DFA_isErrorState this then Inr this
      else (case input of
              JStr a \<Rightarrow>
                (case stateKey h (currentState this) of
                   Inl e \<Rightarrow> Inl e
                 | Inr key \<Rightarrow>
                     (case dfaRead h (dfa.transitions this) key a of
                        Inl e \<Rightarrow> Inl e
                      | Inr Undefined \<Rightarrow>
                          Inr (this\<lparr>currentState := ErrorState, isInErrorState := True\<rparr>)
                      | Inr v \<Rightarrow> Inr (this\<lparr>currentState := State v\<rparr>)))
            | v \<Rightarrow> Inl (SymbolNotValid v)))"

text \<open>Feeding a word: one call of \<open>transition\<close> per symbol, each in the heap of its
  time, stopping at the first throw.\<close>

fun DFA_run :: "dfa \<Rightarrow> (heap \<times> jsval) list \<Rightarrow> error + dfa" where
  "DFA_run this [] = Inr this"
| "DFA_run this ((h, x) # xs) =
     (case DFA_transition h this x of
        Inl e \<Rightarrow> Inl e
      | Inr this' \<Rightarrow> DFA_run this' xs)"

section \<open>The NFA class\<close>

record nfa =
  alphabet :: "string set"
  states :: "string set"
  initialState :: string
  finalStates :: "string set"
  transitions :: nfaTable
  currentStates :: "val list"

definition NFA_constructor :: "heap \<Rightarrow> spec option \<Rightarrow> heap \<times> (error + nfa)" where
  "NFA_constructor h arg =
     (case validateDFAProperties arg of
        Inl e \<Rightarrow> (h, Inl e)
      | Inr u \<Rightarrow>
     (case arg of
        None \<Rightarrow> (h, Inl ObjectNotDefined)
      | Some d \<Rightarrow>
     (case validateAlphabet d of
        Inl e \<Rightarrow> (h, Inl e)
      | Inr alph \<Rightarrow>
     (case validateStates d of
        Inl e \<Rightarrow> (h, Inl e)
      | Inr sts \<Rightarrow>
     (case validateInitialState d sts of
        Inl e \<Rightarrow> (h, Inl e)
      | Inr u \<Rightarrow>
     (case spec.initialState d of
        JStr init \<Rightarrow>
          (case validateFinalStates d sts of
             Inl e \<Rightarrow> (h, Inl e)
           | Inr fin \<Rightarrow>
          (case validateTransitionsNFA h d sts alph of
             (h', Inl e) \<Rightarrow> (h', Inl e)
           | (h', Inr tbl) \<Rightarrow>
               (h', Inr \<lparr>nfa.alphabet = alph, nfa.states = sts, nfa.initialState = init,
                         nfa.finalStates = fin, nfa.transitions = tbl,
                         currentStates = [Str init]\<rparr>)))
      | v \<Rightarrow> (h, Inl (InitialStateNotString v))))))))"

definition NFA_getCurrentStates :: "nfa \<Rightarrow> val list" where
  "NFA_getCurrentStates this = currentStates this"

text \<open>\<open>reduce((prev, curr) => prev && this.finalStates.has(curr), true)\<close>.\<close>

definition NFA_isAcceptingState :: "nfa \<Rightarrow> bool" where
  "NFA_isAcceptingState this =
     foldl (\<lambda>prev curr. prev \<and> hasVal (nfa.finalStates this) curr) True (currentStates this)"

definition NFA_isErrorState :: "nfa \<Rightarrow> bool" where
  "NFA_isErrorState this = (length (currentStates this) = 0)"

text \<open>
  What one active state \<open>x\<close> pushes onto \<open>result\<close>: an \<open>ErrorState\<close> instance when
  \<open>this.transitions[x]\<close> or \<open>this.transitions[x][input]\<close> reads \<open>undefined\<close>;
  otherwise what \<open>forEach\<close> of the value read passes on: the elements of an own array, or
  the outcome of the call on an inherited value.
\<close>

definition nfaPushed :: "heap \<Rightarrow> nfaTable \<Rightarrow> string \<Rightarrow> val \<Rightarrow> error + stateval list" where
  "nfaPushed h tbl input x =
     (case toPropertyKey h x of
        Inl e \<Rightarrow> Inl e
      | Inr key \<Rightarrow>
     (case plainGet h tbl key of
        Inl e \<Rightarrow> Inl e
      | Inr (Foreign Undefined) \<Rightarrow> Inr [ErrorState]
      | Inr (Own row) \<Rightarrow>
          (case plainGet h row input of
             Inl e \<Rightarrow> Inl e
           | Inr (Foreign Undefined) \<Rightarrow> Inr [ErrorState]
           | Inr (Own ys) \<Rightarrow> Inr (map (\<lambda>y. State (Str y)) ys)
           | Inr (Foreign v) \<Rightarrow>
               (case callForEach h v of Inl e \<Rightarrow> Inl e | Inr ys \<Rightarrow> Inr (map State ys)))
      | Inr (Foreign v0) \<Rightarrow>
          (case getProperty h v0 input of
             Inl e \<Rightarrow> Inl e
           | Inr Undefined \<Rightarrow> Inr [ErrorState]
           | Inr v \<Rightarrow>
               (case callForEach h v of Inl e \<Rightarrow> Inl e | Inr ys \<Rightarrow> Inr (map State ys)))))"

text \<open>\<open>this.currentStates.forEach(x => ...)\<close>: the pushes of each active state in turn,
  up to the first throw.\<close>

fun nfaForEach :: "heap \<Rightarrow> nfaTable \<Rightarrow> string \<Rightarrow> val list \<Rightarrow> error + stateval list" where
  "nfaForEach h tbl input [] = Inr []"
| "nfaForEach h tbl input (x # xs) =
     (case nfaPushed h tbl input x of
        Inl e \<Rightarrow> Inl e
      | Inr ps \<Rightarrow>
          (case nfaForEach h tbl input xs of
             Inl e \<Rightarrow> Inl e
           | Inr qs \<Rightarrow> Inr (ps @ qs)))"

text \<open>\<open>result.filter(x => !(x instanceof ErrorState))\<close>: the values that remain.\<close>

fun withoutErrorStates :: "stateval list \<Rightarrow> val list" where
  "withoutErrorStates [] = []"
| "withoutErrorStates (State v # vs) = v # withoutErrorStates vs"
| "withoutErrorStates (ErrorState # vs) = withoutErrorStates vs"

definition NFA_transition :: "heap \<Rightarrow> nfa \<Rightarrow> jsval \<Rightarrow> error + nfa" where
  "NFA_transition h this input =
     (if \<not> has (nfa.alphabet this) input then Inl (SymbolNotValid input)
      else if NFA_isErrorState this then Inr this
      else (case input of
              JStr a \<Rightarrow>
                (case nfaForEach h (nfa.transitions this) a (currentStates this) of
                   Inl e \<Rightarrow> Inl e
                 | Inr result \<Rightarrow> Inr (this\<lparr>currentStates := withoutErrorStates result\<rparr>))
            | v \<Rightarrow> Inl (SymbolNotValid v)))"

fun NFA_run :: "nfa \<Rightarrow> (heap \<times> jsval) list \<Rightarrow> error + nfa" where
  "NFA_run this [] = Inr this"
| "NFA_run this ((h, x) # xs) =
     (case NFA_transition h this x of
        Inl e \<Rightarrow> Inl e
      | Inr this' \<Rightarrow> NFA_run this' xs)"

text \<open>A well-formed transition, as the specification object holds it.\<close>

definition tuple :: "string \<times> string \<times> string \<Rightarrow> jsval" where
  "tuple t = (case t of (x0, x1, x2) \<Rightarrow> JArr [JStr x0, JStr x1, JStr x2])"

section \<open>Auxiliary notions\<close>

text \<open>The two-level read of the NFA table where both levels are own properties.\<close>

definition nfaLookup :: "nfaTable \<Rightarrow> string \<Rightarrow> string \<Rightarrow> string list option" where
  "nfaLookup tbl s a = (case tbl s of None \<Rightarrow> None | Some row \<Rightarrow> row a)"

definition nfaTargets :: "nfaTable \<Rightarrow> string \<Rightarrow> string \<Rightarrow> string list" where
  "nfaTargets tbl s a = (case nfaLookup tbl s a of None \<Rightarrow> [] | Some ys \<Rightarrow> ys)"

text \<open>The membership conditions of a transition.\<close>

definition validTransition :: "string set \<Rightarrow> string set \<Rightarrow> string \<times> string \<times> string \<Rightarrow> bool" where
  "validTransition sts alph t = (case t of (x0, x1, x2) \<Rightarrow> x0 \<in> sts \<and> x1 \<in> sts \<and> x2 \<in> alph)"

text \<open>The targets declared for a state and a symbol, in declaration order.\<close>

definition declaredTargets :: "(string \<times> string \<times> string) list \<Rightarrow> string \<Rightarrow> string \<Rightarrow> string list" where
  "declaredTargets ts s a = [x1. (x0, x1, x2) \<leftarrow> ts, x0 = s \<and> x2 = a]"

text \<open>The error flag mirrors whether \<open>currentState\<close> holds the \<open>ErrorState\<close> instance.\<close>

definition DFA_consistent :: "dfa \<Rightarrow> bool" where
  "DFA_consistent d = (isInErrorState d = (currentState d = ErrorState))"

text \<open>
  In the heap, none of the names is visible through \<open>Object.prototype\<close>: a plain object
  without the own property reads \<open>undefined\<close> under each of them.
\<close>

definition hidden :: "heap \<Rightarrow> string set \<Rightarrow> bool" where
  "hidden h names = (\<forall>k \<in> names. inherited h k = Inr Undefined)"

section \<open>The running example\<close>

text \<open>
  A heap before any automaton is built. It holds the built-in objects that the examples
  read: \<open>Object.prototype\<close> and \<open>Function.prototype\<close> with the members that the language
  prescribes for them, the prototypes of arrays and of the primitive values, and the
  functions these refer to. Of \<open>Array.prototype\<close> only \<open>push\<close> and \<open>forEach\<close> are listed,
  and the static methods of the constructors are left out.
\<close>

definition builtinFunction :: "behaviour \<Rightarrow> string \<Rightarrow> int \<Rightarrow> obj" where
  "builtinFunction b name n =
     \<lparr>kind = FunctionObject b,
      props = [''length'' \<mapsto> Data (Num n), ''name'' \<mapsto> Data (Str name)],
      proto = Ref 1,
      asKey = ''function '' @ name @ ''() { [native code] }''\<rparr>"

definition exampleObjects :: "(nat \<times> obj) list" where
  "exampleObjects =
     [(0, \<lparr>kind = OrdinaryObject,
           props = map_of
             [(''constructor'', Data (Ref 6)), (''toString'', Data (Ref 7)),
              (''toLocaleString'', Data (Ref 8)), (''valueOf'', Data (Ref 9)),
              (''hasOwnProperty'', Data (Ref 10)), (''isPrototypeOf'', Data (Ref 11)),
              (''propertyIsEnumerable'', Data (Ref 12)), (''__defineGetter__'', Data (Ref 13)),
              (''__defineSetter__'', Data (Ref 14)), (''__lookupGetter__'', Data (Ref 15)),
              (''__lookupSetter__'', Data (Ref 16)), (''__proto__'', ProtoAccessor)],
           proto = Null, asKey = ''[object Object]''\<rparr>),
      (1, \<lparr>kind = FunctionObject OtherBehaviour,
           props = map_of
             [(''length'', Data (Num 0)), (''name'', Data (Str [])),
              (''apply'', Data (Ref 17)), (''bind'', Data (Ref 18)), (''call'', Data (Ref 19)),
              (''toString'', Data (Ref 20)), (''constructor'', Data (Ref 21)),
              (''caller'', ThrowingAccessor), (''arguments'', ThrowingAccessor)],
           proto = Ref 0, asKey = ''function () { [native code] }''\<rparr>),
      (2, \<lparr>kind = ArrayObject 0,
           props = map_of [(''push'', Data (Ref 22)), (''forEach'', Data (Ref 23))],
           proto = Ref 0, asKey = []\<rparr>),
      (3, \<lparr>kind = OrdinaryObject, props = map_of [(''length'', Data (Num 0))],
           proto = Ref 0, asKey = []\<rparr>),
      (4, \<lparr>kind = OrdinaryObject, props = Map.empty, proto = Ref 0, asKey = ''0''\<rparr>),
      (5, \<lparr>kind = OrdinaryObject, props = Map.empty, proto = Ref 0, asKey = ''false''\<rparr>),
      (6, (builtinFunction OtherBehaviour ''Object'' 1)
            \<lparr>props := [''length'' \<mapsto> Data (Num 1), ''name'' \<mapsto> Data (Str ''Object''),
                       ''prototype'' \<mapsto> Data (Ref 0)]\<rparr>),
      (7, builtinFunction OtherBehaviour ''toString'' 0),
      (8, builtinFunction OtherBehaviour ''toLocaleString'' 0),
      (9, builtinFunction OtherBehaviour ''valueOf'' 0),
      (10, builtinFunction OtherBehaviour ''hasOwnProperty'' 1),
      (11, builtinFunction OtherBehaviour ''isPrototypeOf'' 1),
      (12, builtinFunction OtherBehaviour ''propertyIsEnumerable'' 1),
      (13, builtinFunction OtherBehaviour ''__defineGetter__'' 2),
      (14, builtinFunction OtherBehaviour ''__defineSetter__'' 2),
      (15, builtinFunction OtherBehaviour ''__lookupGetter__'' 1),
      (16, builtinFunction OtherBehaviour ''__lookupSetter__'' 1),
      (17, builtinFunction OtherBehaviour ''apply'' 2),
      (18, builtinFunction OtherBehaviour ''bind'' 1),
      (19, builtinFunction OtherBehaviour ''call'' 1),
      (20, builtinFunction OtherBehaviour ''toString'' 0),
      (21, (builtinFunction OtherBehaviour ''Function'' 1)
             \<lparr>props := [''length'' \<mapsto> Data (Num 1), ''name'' \<mapsto> Data (Str ''Function''),
                        ''prototype'' \<mapsto> Data (Ref 1)]\<rparr>),
      (22, builtinFunction ArrayPush ''push'' 1),
      (23, builtinFunction ArrayForEach ''forEach'' 1)]"

definition emptyObject :: obj where
  "emptyObject = \<lparr>kind = OrdinaryObject, props = Map.empty, proto = Null, asKey = []\<rparr>"

definition exampleHeap :: heap where
  "exampleHeap =
     \<lparr>objects = (\<lambda>r. case map_of exampleObjects r of Some ob \<Rightarrow> ob | None \<Rightarrow> emptyObject),
      free = 24, objectPrototype = 0, arrayPrototype = 2, stringPrototype = 3,
      numberPrototype = 4, booleanPrototype = 5\<rparr>"

text \<open>A specification object with the five properties, the transitions well-formed.\<close>

definition makeSpec ::
  "string list \<Rightarrow> string list \<Rightarrow> string \<Rightarrow> string list \<Rightarrow> (string \<times> string \<times> string) list \<Rightarrow> spec" where
  "makeSpec alph sts init fin ts =
     \<lparr>spec.alphabet = JArr (map JStr alph), spec.states = JArr (map JStr sts),
      spec.initialState = JStr init, spec.finalStates = JArr (map JStr fin),
      spec.transitions = JArr (map tuple ts)\<rparr>"

text \<open>The specification of the concrete scenarios: alphabet a, b; states s1, s2, s3; initial
  state s1; final state s3; the transitions are given.\<close>

definition exampleSpec :: "(string \<times> string \<times> string) list \<Rightarrow> spec" where
  "exampleSpec ts = makeSpec [''a'', ''b''] [''s1'', ''s2'', ''s3''] ''s1'' [''s3''] ts"

text \<open>The DFA and the NFA that the constructors build from it, for the transitions
  (s1, s2, a), (s2, s3, b) and (s1, s2, a), (s1, s3, a).\<close>

definition exampleDFA :: dfa where
  "exampleDFA =
     \<lparr>dfa.alphabet = {''a'', ''b''}, dfa.states = {''s1'', ''s2'', ''s3''},
      dfa.initialState = ''s1'', dfa.finalStates = {''s3''},
      dfa.transitions = [''s1'' \<mapsto> [''a'' \<mapsto> ''s2''], ''s2'' \<mapsto> [''b'' \<mapsto> ''s3'']],
      currentState = State (Str ''s1''), isInErrorState = False\<rparr>"

definition exampleNFA :: nfa where
  "exampleNFA =
     \<lparr>nfa.alphabet = {''a'', ''b''}, nfa.states = {''s1'', ''s2'', ''s3''},
      nfa.initialState = ''s1'', nfa.finalStates = {''s3''},
      nfa.transitions = [''s1'' \<mapsto> [''a'' \<mapsto> [''s2'', ''s3'']]],
      currentStates = [Str ''s1'']\<rparr>"

text \<open>The same automata in their error states.\<close>

definition deadDFA :: dfa where
  "deadDFA = exampleDFA\<lparr>currentState := ErrorState, isInErrorState := True\<rparr>"

definition deadNFA :: nfa where
  "deadNFA = exampleNFA\<lparr>currentStates := []\<rparr>"

text \<open>The active states of an NFA built in a heap, after a word read in the heap that the
  construction leaves.\<close>

definition NFA_statesAfter :: "heap \<Rightarrow> spec option \<Rightarrow> jsval list \<Rightarrow> error + val list" where
  "NFA_statesAfter h0 arg w =
     (case NFA_constructor h0 arg of
        (h, Inl e) \<Rightarrow> Inl e
      | (h, Inr n) \<Rightarrow>
          (case NFA_run n (map (\<lambda>x. (h, x)) w) of
             Inl e \<Rightarrow> Inl e
           | Inr n' \<Rightarrow> Inr (NFA_getCurrentStates n')))"

text \<open>The current state and the error flag of a DFA built in a heap, after a word read in
  the heap that the construction leaves.\<close>

definition DFA_stateAfter :: "heap \<Rightarrow> spec option \<Rightarrow> jsval list \<Rightarrow> error + stateval \<times> bool" where
  "DFA_stateAfter h0 arg w =
     (case DFA_constructor h0 arg of
        (h, Inl e) \<Rightarrow> Inl e
      | (h, Inr d) \<Rightarrow>
          (case DFA_run d (map (\<lambda>x. (h, x)) w) of
             Inl e \<Rightarrow> Inl e
           | Inr d' \<Rightarrow> Inr (DFA_getCurrentState d', DFA_isErrorState d')))"

text \<open>The NFA table after a transition whose row and entry are own properties or read
  \<open>undefined\<close>: the row and the target array are created when missing, the target is
  pushed.\<close>

definition nfaAddOwn :: "nfaTable \<Rightarrow> string \<times> string \<times> string \<Rightarrow> nfaTable" where
  "nfaAddOwn result x =
     (case x of (x0, x1, x2) \<Rightarrow>
        (let row = (case result x0 of None \<Rightarrow> Map.empty | Some r \<Rightarrow> r);
             targets = (case row x2 of None \<Rightarrow> [] | Some ts \<Rightarrow> ts)
         in result(x0 \<mapsto> row(x2 \<mapsto> targets @ [x1]))))"

text \<open>The (from, symbol) pair of a transition.\<close>

definition pairOf :: "string \<times> string \<times> string \<Rightarrow> string \<times> string" where
  "pairOf t = (case t of (x0, x1, x2) \<Rightarrow> (x0, x2))"

text \<open>
  A specification as the data model asks for it: the symbols of the alphabet and the states
  are pairwise different and none is blank, the initial state is a state, the final states
  are pairwise different states, and every transition goes from a state to a state on a
  symbol of the alphabet.
\<close>

definition validSpec ::
  "string list \<Rightarrow> string list \<Rightarrow> string \<Rightarrow> string list \<Rightarrow> (string \<times> string \<times> string) list \<Rightarrow> bool" where
  "validSpec alph sts init fin ts =
     (distinct alph \<and> list_all (\<lambda>s. trim s \<noteq> []) alph \<and>
      distinct sts \<and> list_all (\<lambda>s. trim s \<noteq> []) sts \<and>
      init \<in> set sts \<and>
      distinct fin \<and> list_all (\<lambda>s. s \<in> set sts) fin \<and>
      list_all (validTransition (set sts) (set alph)) ts)"

text \<open>The two-level read of the DFA table where both levels are own properties.\<close>

definition dfaLookup :: "dfaTable \<Rightarrow> string \<Rightarrow> string \<Rightarrow> string option" where
  "dfaLookup tbl s a = (case tbl s of None \<Rightarrow> None | Some row \<Rightarrow> row a)"

text \<open>The DFA table after a transition whose row is an own property or reads
  \<open>undefined\<close>: the row is created when missing, the entry is written.\<close>

definition dfaAddOwn :: "dfaTable \<Rightarrow> string \<times> string \<times> string \<Rightarrow> dfaTable" where
  "dfaAddOwn result x =
     (case x of (x0, x1, x2) \<Rightarrow>
        result(x0 \<mapsto> (case result x0 of None \<Rightarrow> Map.empty | Some r \<Rightarrow> r)(x2 \<mapsto> x1)))"

section \<open>One call of transition\<close>

lemma DFA_transition_not_has:
  "\<not> has (dfa.alphabet d) x \<Longrightarrow> DFA_transition h d x = Inl (SymbolNotValid x)"
  by (simp add: DFA_transition_def)

lemma NFA_transition_not_has:
  "\<not> has (nfa.alphabet n) x \<Longrightarrow> NFA_transition h n x = Inl (SymbolNotValid x)"
  by (simp add: NFA_transition_def)

lemma DFA_transition_error:
  "DFA_isErrorState d \<Longrightarrow> has (dfa.alphabet d) x \<Longrightarrow> DFA_transition h d x = Inr d"
  by (simp add: DFA_transition_def)

lemma DFA_run_error:
  "DFA_isErrorState d \<Longrightarrow> \<forall>hx \<in> set w. has (dfa.alphabet d) (snd hx) \<Longrightarrow> DFA_run d w = Inr d"
  by (induction w) (auto simp: DFA_transition_error)

lemma NFA_transition_error:
  "NFA_isErrorState n \<Longrightarrow> has (nfa.alphabet n) x \<Longrightarrow> NFA_transition h n x = Inr n"
  by (simp add: NFA_transition_def)

lemma NFA_run_error:
  "NFA_isErrorState n \<Longrightarrow> \<forall>hx \<in> set w. has (nfa.alphabet n) (snd hx) \<Longrightarrow> NFA_run n w = Inr n"
  by (induction w) (auto simp: NFA_transition_error)

lemma foldl_conj: "foldl (\<lambda>prev curr. prev \<and> P curr) b xs = (b \<and> (\<forall>x \<in> set xs. P x))"
  by (induction xs arbitrary: b) auto

lemma NFA_isAcceptingState_all:
  "NFA_isAcceptingState n = (\<forall>v \<in> set (NFA_getCurrentStates n). hasVal (nfa.finalStates n) v)"
  by (simp add: NFA_isAcceptingState_def NFA_getCurrentStates_def foldl_conj)

lemma has_JStr: "has S x \<Longrightarrow> \<exists>a. x = JStr a \<and> a \<in> S"
  by (cases x) simp_all

lemma NFA_transition_Inr_has: "NFA_transition g n x = Inr n' \<Longrightarrow> has (nfa.alphabet n) x"
  by (auto simp: NFA_transition_def split: if_splits)

section \<open>What a successful construction yields\<close>

lemma DFA_constructor_Inr:
  assumes "DFA_constructor h arg = (h', Inr d)"
  shows "\<exists>sp init. arg = Some sp \<and> spec.initialState sp = JStr init \<and>
           validateAlphabet sp = Inr (dfa.alphabet d) \<and>
           validateStates sp = Inr (dfa.states d) \<and>
           validateInitialState sp (dfa.states d) = Inr () \<and>
           validateFinalStates sp (dfa.states d) = Inr (dfa.finalStates d) \<and>
           validateTransitionsDFA h sp (dfa.states d) (dfa.alphabet d) =
             (h', Inr (dfa.transitions d)) \<and>
           dfa.initialState d = init \<and> currentState d = State (Str init) \<and>
           \<not> isInErrorState d"
  using assms unfolding DFA_constructor_def
  by (auto split: sum.splits option.splits jsval.splits prod.splits)

lemma NFA_constructor_Inr:
  assumes "NFA_constructor h arg = (h', Inr n)"
  shows "\<exists>sp init. arg = Some sp \<and> spec.initialState sp = JStr init \<and>
           validateAlphabet sp = Inr (nfa.alphabet n) \<and>
           validateStates sp = Inr (nfa.states n) \<and>
           validateInitialState sp (nfa.states n) = Inr () \<and>
           validateFinalStates sp (nfa.states n) = Inr (nfa.finalStates n) \<and>
           validateTransitionsNFA h sp (nfa.states n) (nfa.alphabet n) =
             (h', Inr (nfa.transitions n)) \<and>
           nfa.initialState n = init \<and> currentStates n = [Str init]"
  using assms unfolding NFA_constructor_def
  by (auto split: sum.splits option.splits jsval.splits prod.splits)

lemma DFA_transition_consistent:
  "DFA_consistent d \<Longrightarrow> DFA_transition h d x = Inr d' \<Longrightarrow> DFA_consistent d'"
  by (auto simp: DFA_transition_def DFA_consistent_def DFA_isErrorState_def
           split: if_splits jsval.splits sum.splits val.splits)

lemma DFA_run_consistent:
  "DFA_consistent d \<Longrightarrow> DFA_run d w = Inr d' \<Longrightarrow> DFA_consistent d'"
proof (induction w arbitrary: d)
  case Nil
  then show ?case by simp
next
  case (Cons hx w)
  obtain h x where hx: "hx = (h, x)" by (cases hx)
  from Cons.prems(2) hx obtain d1 where
    "DFA_transition h d x = Inr d1" "DFA_run d1 w = Inr d'"
    by (auto split: sum.splits)
  with Cons.IH[of d1] Cons.prems(1) show ?case
    by (blast intro: DFA_transition_consistent)
qed

lemma DFA_constructor_consistent:
  "DFA_constructor h arg = (h', Inr d) \<Longrightarrow> DFA_consistent d"
  by (drule DFA_constructor_Inr) (auto simp: DFA_consistent_def)

section \<open>What the checks on a transition accept\<close>

lemma tupleStrings_Inr: "tupleStrings i ys = Inr ss \<Longrightarrow> ys = map JStr ss"
  by (induction ys arbitrary: i ss) (auto split: jsval.splits sum.splits)

lemma checkTransition_tuple:
  "checkTransition sts alph (tuple t) = (if validTransition sts alph t then Inr t
     else (case t of (x0, x1, x2) \<Rightarrow>
             if x0 \<notin> sts then Inl (TransitionFirstNotState x0)
             else if x1 \<notin> sts then Inl (TransitionSecondNotState x1)
             else Inl (TransitionThirdNotSymbol x2)))"
  by (cases t) (simp add: checkTransition_def tuple_def validTransition_def)

lemma checkTransition_Inr:
  assumes "checkTransition sts alph x = Inr t"
  shows "x = tuple t \<and> validTransition sts alph t"
proof (cases x)
  case (JArr ys)
  with assms have len: "length ys = 3"
    by (auto simp: checkTransition_def split: if_splits)
  from assms JArr len obtain ss where ss: "tupleStrings 0 ys = Inr ss"
    by (auto simp: checkTransition_def split: sum.splits)
  then have ys: "ys = map JStr ss" by (rule tupleStrings_Inr)
  with len have "length ss = 3" by simp
  then obtain x0 x1 x2 where ss3: "ss = [x0, x1, x2]"
    by (auto simp: length_Suc_conv numeral_3_eq_3)
  with assms JArr len ss have "t = (x0, x1, x2) \<and> x0 \<in> sts \<and> x1 \<in> sts \<and> x2 \<in> alph"
    by (auto simp: checkTransition_def split: if_splits)
  with JArr ys ss3 show ?thesis
    by (simp add: tuple_def validTransition_def)
qed (use assms in \<open>auto simp: checkTransition_def split: if_splits\<close>)

section \<open>Names that are not visible through the prototype\<close>

lemma hidden_inherited: "hidden h names \<Longrightarrow> k \<in> names \<Longrightarrow> inherited h k = Inr Undefined"
  by (simp add: hidden_def)

lemma inherited_Undefined_findProperty:
  assumes "inherited h k = Inr Undefined"
  shows "findProperty h (objectPrototype h) k = None \<or>
         findProperty h (objectPrototype h) k = Some (Data Undefined)"
proof (cases "findProperty h (objectPrototype h) k")
  case None
  then show ?thesis by simp
next
  case (Some p)
  with assms show ?thesis
    by (cases p) (simp_all add: inherited_def readProperty_def)
qed

lemma plainGet_hidden:
  "inherited h k = Inr Undefined \<Longrightarrow>
     plainGet h ob k = (case ob k of Some x \<Rightarrow> Inr (Own x) | None \<Rightarrow> Inr (Foreign Undefined))"
  by (simp add: plainGet_def split: option.splits)

lemma plainSet_hidden:
  "inherited h k = Inr Undefined \<Longrightarrow> plainSet h b ob k x = Inr (ob(k \<mapsto> x))"
  using inherited_Undefined_findProperty[of h k]
  by (auto simp: plainSet_def split: option.splits)

lemma nfaRowPush_hidden:
  assumes "inherited h x2 = Inr Undefined"
  shows "nfaRowPush h row x2 x1 =
           (h, Inr (row(x2 \<mapsto> (case row x2 of None \<Rightarrow> [] | Some ys \<Rightarrow> ys) @ [x1])))"
  using assms
  by (simp add: nfaRowPush_def plainGet_hidden plainSet_hidden split: option.splits)

lemma nfaAddTransition_hidden:
  assumes "inherited h x0 = Inr Undefined" and "inherited h x2 = Inr Undefined"
  shows "nfaAddTransition h result (x0, x1, x2) = (h, Inr (nfaAddOwn result (x0, x1, x2)))"
  using assms
  by (simp add: nfaAddTransition_def nfaAddOwn_def plainGet_hidden plainSet_hidden
        nfaRowPush_hidden Let_def split: option.splits)

lemma declaredTargets_Nil: "declaredTargets [] s a = []"
  by (simp add: declaredTargets_def)

lemma declaredTargets_Cons:
  "declaredTargets ((x0, x1, x2) # ts) s a =
     (if x0 = s \<and> x2 = a then x1 # declaredTargets ts s a else declaredTargets ts s a)"
  by (simp add: declaredTargets_def)

lemma nfaTargets_nfaAddOwn:
  "nfaTargets (nfaAddOwn tbl (x0, x1, x2)) s a =
     (if s = x0 \<and> a = x2 then nfaTargets tbl s a @ [x1] else nfaTargets tbl s a)"
  by (auto simp: nfaAddOwn_def nfaTargets_def nfaLookup_def Let_def split: option.splits)

lemma validateTransitionsNFA_forEach_hidden:
  assumes "validateTransitionsNFA_forEach sts alph xs h tbl = (h', Inr tbl')"
    and "hidden h (sts \<union> alph)"
  shows "h' = h \<and> (\<exists>ts. xs = map tuple ts \<and> (\<forall>t \<in> set ts. validTransition sts alph t) \<and>
           (\<forall>s a. nfaTargets tbl' s a = nfaTargets tbl s a @ declaredTargets ts s a))"
  using assms
proof (induction xs arbitrary: tbl)
  case Nil
  then show ?case by (simp add: declaredTargets_Nil)
next
  case (Cons x xs)
  from Cons.prems(1) obtain t where t: "checkTransition sts alph x = Inr t"
    by (auto split: sum.splits)
  obtain x0 x1 x2 where t3: "t = (x0, x1, x2)" by (cases t)
  from checkTransition_Inr[OF t] have x: "x = tuple t" and vt: "validTransition sts alph t"
    by simp_all
  from vt t3 Cons.prems(2) have
    "inherited h x0 = Inr Undefined" "inherited h x2 = Inr Undefined"
    by (auto simp: validTransition_def hidden_def)
  then have add: "nfaAddTransition h tbl t = (h, Inr (nfaAddOwn tbl t))"
    unfolding t3 by (rule nfaAddTransition_hidden)
  with Cons.prems(1) t have
    rest: "validateTransitionsNFA_forEach sts alph xs h (nfaAddOwn tbl t) = (h', Inr tbl')"
    by simp
  from Cons.IH[OF rest Cons.prems(2)] obtain ts where
    h: "h' = h" and
    xs: "xs = map tuple ts" and
    v: "\<forall>t \<in> set ts. validTransition sts alph t" and
    l: "\<And>s a. nfaTargets tbl' s a = nfaTargets (nfaAddOwn tbl t) s a @ declaredTargets ts s a"
    by blast
  have "nfaTargets tbl' s a = nfaTargets tbl s a @ declaredTargets (t # ts) s a" for s a
    by (auto simp: l t3 nfaTargets_nfaAddOwn declaredTargets_Cons)
  with x xs vt v h show ?case
    by (intro conjI exI[of _ "t # ts"]) simp_all
qed

lemma nfaTargets_empty: "nfaTargets Map.empty s a = []"
  by (simp add: nfaTargets_def nfaLookup_def)

lemma validateTransitionsNFA_hidden:
  assumes "validateTransitionsNFA h sp sts alph = (h', Inr tbl)" and "hidden h (sts \<union> alph)"
  shows "h' = h \<and> (\<exists>ts. spec.transitions sp = JArr (map tuple ts) \<and>
           (\<forall>t \<in> set ts. validTransition sts alph t) \<and>
           (\<forall>s a. nfaTargets tbl s a = declaredTargets ts s a))"
proof -
  from assms(1) obtain xs where xs: "spec.transitions sp = JArr xs"
    and fe: "validateTransitionsNFA_forEach sts alph xs h Map.empty = (h', Inr tbl)"
    by (auto simp: validateTransitionsNFA_def split: jsval.splits)
  from validateTransitionsNFA_forEach_hidden[OF fe assms(2)] xs show ?thesis
    by (auto simp: nfaTargets_empty)
qed

lemma declaredTargets_valid:
  "\<forall>t \<in> set ts. validTransition sts alph t \<Longrightarrow> set (declaredTargets ts s a) \<subseteq> sts"
  by (induction ts)
     (auto simp: declaredTargets_Nil declaredTargets_Cons validTransition_def split: if_splits)

lemma withoutErrorStates_append:
  "withoutErrorStates (us @ vs) = withoutErrorStates us @ withoutErrorStates vs"
  by (induction us rule: withoutErrorStates.induct) simp_all

lemma withoutErrorStates_map_State: "withoutErrorStates (map (\<lambda>y. State (Str y)) ys) = map Str ys"
  by (induction ys) simp_all

lemma nfaPushed_hidden:
  assumes "inherited g s = Inr Undefined" and "inherited g a = Inr Undefined"
  shows "nfaPushed g tbl a (Str s) =
           Inr (case nfaLookup tbl s a of
                  None \<Rightarrow> [ErrorState]
                | Some ys \<Rightarrow> map (\<lambda>y. State (Str y)) ys)"
  using assms
  by (simp add: nfaPushed_def toPropertyKey_def plainGet_hidden nfaLookup_def
           split: option.splits)

lemma withoutErrorStates_lookup:
  "withoutErrorStates (case nfaLookup tbl s a of
                         None \<Rightarrow> [ErrorState]
                       | Some ys \<Rightarrow> map (\<lambda>y. State (Str y)) ys) = map Str (nfaTargets tbl s a)"
  by (simp add: nfaTargets_def withoutErrorStates_map_State split: option.splits)

lemma nfaForEach_hidden:
  assumes "hidden g (sts \<union> alph)" and "a \<in> alph" and "set ss \<subseteq> sts"
  shows "\<exists>result. nfaForEach g tbl a (map Str ss) = Inr result \<and>
           withoutErrorStates result = map Str (concat (map (\<lambda>s. nfaTargets tbl s a) ss))"
  using assms(3)
proof (induction ss)
  case Nil
  then show ?case by simp
next
  case (Cons s ss)
  from Cons.prems assms(1,2) have
    hs: "inherited g s = Inr Undefined" and ha: "inherited g a = Inr Undefined"
    by (auto simp: hidden_def)
  from Cons obtain result where
    r: "nfaForEach g tbl a (map Str ss) = Inr result" and
    w: "withoutErrorStates result = map Str (concat (map (\<lambda>s. nfaTargets tbl s a) ss))"
    by auto
  show ?case
    by (simp add: nfaPushed_hidden[OF hs ha] r w withoutErrorStates_append
          withoutErrorStates_lookup)
qed

lemma NFA_transition_hidden:
  assumes "hidden g (nfa.states n \<union> nfa.alphabet n)" and "a \<in> nfa.alphabet n"
    and "currentStates n = map Str ss" and "set ss \<subseteq> nfa.states n"
  shows "NFA_transition g n (JStr a) =
           Inr (n\<lparr>currentStates :=
                    map Str (concat (map (\<lambda>s. nfaTargets (nfa.transitions n) s a) ss))\<rparr>)"
proof (cases "ss = []")
  case True
  with assms(2,3) show ?thesis
    by (simp add: NFA_transition_def NFA_isErrorState_def)
next
  case False
  from nfaForEach_hidden[OF assms(1,2,4), of "nfa.transitions n"] obtain result where
    "nfaForEach g (nfa.transitions n) a (map Str ss) = Inr result"
    "withoutErrorStates result =
       map Str (concat (map (\<lambda>s. nfaTargets (nfa.transitions n) s a) ss))"
    by blast
  with False assms(2,3) show ?thesis
    by (simp add: NFA_transition_def NFA_isErrorState_def)
qed

lemma NFA_run_hidden:
  assumes "NFA_run n0 w = Inr n"
    and "\<forall>hx \<in> set w. hidden (fst hx) (nfa.states n0 \<union> nfa.alphabet n0)"
    and "currentStates n0 = map Str ss0" and "set ss0 \<subseteq> nfa.states n0"
    and "\<forall>s a. set (nfaTargets (nfa.transitions n0) s a) \<subseteq> nfa.states n0"
  shows "nfa.states n = nfa.states n0 \<and> nfa.alphabet n = nfa.alphabet n0 \<and>
         nfa.transitions n = nfa.transitions n0 \<and>
         (\<exists>ss. currentStates n = map Str ss \<and> set ss \<subseteq> nfa.states n0)"
  using assms
proof (induction w arbitrary: n0 ss0)
  case Nil
  then show ?case by auto
next
  case (Cons hx w)
  obtain g x where hx: "hx = (g, x)" by (cases hx)
  from Cons.prems(1) hx obtain n1 where
    step: "NFA_transition g n0 x = Inr n1" and rest: "NFA_run n1 w = Inr n"
    by (auto split: sum.splits)
  from NFA_transition_Inr_has[OF step] obtain a where
    a: "x = JStr a" "a \<in> nfa.alphabet n0"
    by (auto dest: has_JStr)
  from Cons.prems(2) hx have hid: "hidden g (nfa.states n0 \<union> nfa.alphabet n0)" by simp
  let ?ss1 = "concat (map (\<lambda>s. nfaTargets (nfa.transitions n0) s a) ss0)"
  from NFA_transition_hidden[OF hid a(2) Cons.prems(3,4)] step a(1)
  have n1: "n1 = n0\<lparr>currentStates := map Str ?ss1\<rparr>" by simp
  have sub: "set ?ss1 \<subseteq> nfa.states n0" using Cons.prems(5) by auto
  have "nfa.states n = nfa.states n1 \<and> nfa.alphabet n = nfa.alphabet n1 \<and>
        nfa.transitions n = nfa.transitions n1 \<and>
        (\<exists>ss. currentStates n = map Str ss \<and> set ss \<subseteq> nfa.states n1)"
  proof (rule Cons.IH[OF rest, of ?ss1])
    show "\<forall>hx \<in> set w. hidden (fst hx) (nfa.states n1 \<union> nfa.alphabet n1)"
      using Cons.prems(2) by (simp add: n1)
    show "currentStates n1 = map Str ?ss1" by (simp add: n1)
    show "set ?ss1 \<subseteq> nfa.states n1" using sub by (simp add: n1)
    show "\<forall>s a. set (nfaTargets (nfa.transitions n1) s a) \<subseteq> nfa.states n1"
      using Cons.prems(5) by (simp add: n1)
  qed
  then show ?case by (simp add: n1)
qed

section \<open>Specifications whose names are not visible through the prototype\<close>

text \<open>
  For such names the tables behave as dictionaries: a valid specification is accepted, the
  automaton starts at the initial state, the DFA table holds the declared transitions and
  rejects the first repeated pair, and a transition reads the own entries only.
\<close>

lemma validateAlphabet_forEach_valid:
  "distinct xs \<Longrightarrow> list_all (\<lambda>s. trim s \<noteq> []) xs \<Longrightarrow> set xs \<inter> acc = {} \<Longrightarrow>
     validateAlphabet_forEach (map JStr xs) acc = Inr (acc \<union> set xs)"
  by (induction xs arbitrary: acc) auto

lemma validateStates_forEach_valid:
  "distinct xs \<Longrightarrow> list_all (\<lambda>s. trim s \<noteq> []) xs \<Longrightarrow> set xs \<inter> acc = {} \<Longrightarrow>
     validateStates_forEach (map JStr xs) acc = Inr (acc \<union> set xs)"
  by (induction xs arbitrary: acc) auto

lemma validateFinalStates_forEach_valid:
  "distinct xs \<Longrightarrow> list_all (\<lambda>s. s \<in> sts) xs \<Longrightarrow> set xs \<inter> acc = {} \<Longrightarrow>
     validateFinalStates_forEach sts (map JStr xs) acc = Inr (acc \<union> set xs)"
  by (induction xs arbitrary: acc) auto

lemma trim_Nil: "trim [] = []"
  by (simp add: trim_def)

lemma validSpec_validators:
  assumes "validSpec alph sts init fin ts"
  shows "validateDFAProperties (Some (makeSpec alph sts init fin ts)) = Inr ()"
    and "validateAlphabet (makeSpec alph sts init fin ts) = Inr (set alph)"
    and "validateStates (makeSpec alph sts init fin ts) = Inr (set sts)"
    and "validateInitialState (makeSpec alph sts init fin ts) (set sts) = Inr ()"
    and "validateFinalStates (makeSpec alph sts init fin ts) (set sts) = Inr (set fin)"
proof -
  from assms have nb: "list_all (\<lambda>s. trim s \<noteq> []) sts" and i: "init \<in> set sts"
    by (simp_all add: validSpec_def)
  then have ti: "trim init \<noteq> []" by (auto simp: list_all_iff)
  then have "init \<noteq> []" using trim_Nil by auto
  then show "validateDFAProperties (Some (makeSpec alph sts init fin ts)) = Inr ()"
    by (simp add: validateDFAProperties_def makeSpec_def)
  from assms show "validateAlphabet (makeSpec alph sts init fin ts) = Inr (set alph)"
    by (simp add: validateAlphabet_def makeSpec_def validSpec_def validateAlphabet_forEach_valid)
  from assms show "validateStates (makeSpec alph sts init fin ts) = Inr (set sts)"
    by (simp add: validateStates_def makeSpec_def validSpec_def validateStates_forEach_valid)
  from i ti show "validateInitialState (makeSpec alph sts init fin ts) (set sts) = Inr ()"
    by (simp add: validateInitialState_def makeSpec_def)
  from assms show "validateFinalStates (makeSpec alph sts init fin ts) (set sts) = Inr (set fin)"
    by (simp add: validateFinalStates_def makeSpec_def validSpec_def
          validateFinalStates_forEach_valid)
qed

lemma validateTransitionsNFA_forEach_valid:
  assumes "list_all (validTransition sts alph) ts" and "hidden h (sts \<union> alph)"
  shows "\<exists>tbl'. validateTransitionsNFA_forEach sts alph (map tuple ts) h tbl = (h, Inr tbl')"
  using assms(1)
proof (induction ts arbitrary: tbl)
  case Nil
  then show ?case by simp
next
  case (Cons t ts)
  obtain x0 x1 x2 where t3: "t = (x0, x1, x2)" by (cases t)
  from Cons.prems have vt: "validTransition sts alph t" by simp
  with t3 assms(2) have
    "inherited h x0 = Inr Undefined" "inherited h x2 = Inr Undefined"
    by (auto simp: validTransition_def hidden_def)
  then have "nfaAddTransition h tbl t = (h, Inr (nfaAddOwn tbl t))"
    unfolding t3 by (rule nfaAddTransition_hidden)
  with vt Cons.IH[of "nfaAddOwn tbl t"] Cons.prems show ?case
    by (simp add: checkTransition_tuple)
qed

lemma NFA_constructor_valid:
  assumes "validSpec alph sts init fin ts" and "hidden h (set sts \<union> set alph)"
  shows "\<exists>n. NFA_constructor h (Some (makeSpec alph sts init fin ts)) = (h, Inr n) \<and>
           NFA_getCurrentStates n = [Str init]"
proof -
  from assms(1) have "list_all (validTransition (set sts) (set alph)) ts"
    by (simp add: validSpec_def)
  from validateTransitionsNFA_forEach_valid[OF this assms(2), of Map.empty] obtain tbl where
    "validateTransitionsNFA_forEach (set sts) (set alph) (map tuple ts) h Map.empty = (h, Inr tbl)"
    by blast
  then have "validateTransitionsNFA h (makeSpec alph sts init fin ts) (set sts) (set alph) =
               (h, Inr tbl)"
    by (simp add: validateTransitionsNFA_def makeSpec_def)
  moreover have "spec.initialState (makeSpec alph sts init fin ts) = JStr init"
    by (simp add: makeSpec_def)
  ultimately show ?thesis
    by (simp add: NFA_constructor_def validSpec_validators[OF assms(1)] NFA_getCurrentStates_def)
qed

lemma dfaAddTransition_hidden:
  assumes "inherited h x0 = Inr Undefined" and "inherited h x2 = Inr Undefined"
  shows "dfaAddTransition h result (x0, x1, x2) =
           (h, case dfaLookup result x0 x2 of
                 Some t \<Rightarrow> Inl (NonDeterministic x0 x1 x2)
               | None \<Rightarrow> Inr (dfaAddOwn result (x0, x1, x2)))"
  using assms
  by (simp add: dfaAddTransition_def dfaAddOwn_def dfaLookup_def plainGet_hidden plainSet_hidden
           split: option.splits)

lemma dfaLookup_dfaAddOwn:
  "dfaLookup (dfaAddOwn tbl (x0, x1, x2)) f a =
     (if f = x0 \<and> a = x2 then Some x1 else dfaLookup tbl f a)"
  by (auto simp: dfaAddOwn_def dfaLookup_def split: option.splits)

lemma validateTransitionsDFA_forEach_append:
  "validateTransitionsDFA_forEach sts alph (xs @ ys) h tbl =
     (case validateTransitionsDFA_forEach sts alph xs h tbl of
        (h', Inl e) \<Rightarrow> (h', Inl e)
      | (h', Inr tbl') \<Rightarrow> validateTransitionsDFA_forEach sts alph ys h' tbl')"
  by (induction xs arbitrary: h tbl) (simp_all split: sum.splits prod.splits)

lemma validateTransitionsDFA_forEach_valid:
  assumes "list_all (validTransition sts alph) ts" and "hidden h (sts \<union> alph)"
    and "distinct (map pairOf ts)"
    and "\<forall>(x0, x1, x2) \<in> set ts. dfaLookup tbl x0 x2 = None"
  shows "\<exists>tbl'. validateTransitionsDFA_forEach sts alph (map tuple ts) h tbl = (h, Inr tbl') \<and>
           (\<forall>f a t. dfaLookup tbl' f a = Some t \<longleftrightarrow>
                      dfaLookup tbl f a = Some t \<or> (f, t, a) \<in> set ts)"
  using assms(1,3,4)
proof (induction ts arbitrary: tbl)
  case Nil
  then show ?case by simp
next
  case (Cons t ts)
  obtain x0 x1 x2 where t3: "t = (x0, x1, x2)" by (cases t)
  from Cons.prems(1) have vt: "validTransition sts alph t" by simp
  with t3 assms(2) have
    hid: "inherited h x0 = Inr Undefined" "inherited h x2 = Inr Undefined"
    by (auto simp: validTransition_def hidden_def)
  from Cons.prems(3) have fresh: "dfaLookup tbl x0 x2 = None" by (simp add: t3)
  let ?tbl1 = "dfaAddOwn tbl t"
  from dfaAddTransition_hidden[OF hid, of tbl x1] fresh
  have add: "dfaAddTransition h tbl t = (h, Inr ?tbl1)" by (simp add: t3)
  have upd: "dfaLookup ?tbl1 f a = (if f = x0 \<and> a = x2 then Some x1 else dfaLookup tbl f a)"
    for f a
    by (simp add: t3 dfaLookup_dfaAddOwn)
  have none: "\<forall>(y0, y1, y2) \<in> set ts. dfaLookup ?tbl1 y0 y2 = None"
  proof (clarify)
    fix y0 y1 y2 assume y: "(y0, y1, y2) \<in> set ts"
    with Cons.prems(3) have old: "dfaLookup tbl y0 y2 = None" by auto
    from y have "pairOf (y0, y1, y2) \<in> set (map pairOf ts)" by force
    with Cons.prems(2) have "pairOf (y0, y1, y2) \<noteq> pairOf t" by auto
    then have "\<not> (y0 = x0 \<and> y2 = x2)" by (auto simp: pairOf_def t3)
    with old show "dfaLookup ?tbl1 y0 y2 = None" by (simp add: upd)
  qed
  from Cons.IH[of ?tbl1] Cons.prems(1,2) none obtain tbl' where
    r: "validateTransitionsDFA_forEach sts alph (map tuple ts) h ?tbl1 = (h, Inr tbl')" and
    l: "\<And>f a u. dfaLookup tbl' f a = Some u \<longleftrightarrow>
                  dfaLookup ?tbl1 f a = Some u \<or> (f, u, a) \<in> set ts"
    by auto
  have "dfaLookup tbl' f a = Some u \<longleftrightarrow>
          dfaLookup tbl f a = Some u \<or> (f, u, a) \<in> set (t # ts)" for f a u
  proof (cases "f = x0 \<and> a = x2")
    case True
    with fresh show ?thesis by (auto simp: l t3 dfaLookup_dfaAddOwn)
  next
    case False
    then show ?thesis by (auto simp: l t3 dfaLookup_dfaAddOwn)
  qed
  with vt add r show ?case
    by (simp add: checkTransition_tuple)
qed

lemma validateTransitionsDFA_forEach_first_conflict:
  assumes "list_all (validTransition sts alph) pre" and "hidden h (sts \<union> alph)"
    and "distinct (map pairOf pre)"
    and "validTransition sts alph (x0, x1, x2)"
    and "(x0, x2) \<in> set (map pairOf pre)"
  shows "validateTransitionsDFA_forEach sts alph (map tuple pre @ tuple (x0, x1, x2) # post)
           h Map.empty = (h, Inl (NonDeterministic x0 x1 x2))"
proof -
  have "\<forall>(y0, y1, y2) \<in> set pre. dfaLookup Map.empty y0 y2 = None"
    by (simp add: dfaLookup_def split: prod.splits)
  from validateTransitionsDFA_forEach_valid[OF assms(1,2,3) this] obtain tbl where
    tbl: "validateTransitionsDFA_forEach sts alph (map tuple pre) h Map.empty = (h, Inr tbl)" and
    l: "\<And>f a t. dfaLookup tbl f a = Some t \<longleftrightarrow>
                  dfaLookup Map.empty f a = Some t \<or> (f, t, a) \<in> set pre"
    by blast
  from assms(5) obtain y1 where "(x0, y1, x2) \<in> set pre" by (auto simp: pairOf_def)
  with l have look: "dfaLookup tbl x0 x2 = Some y1" by simp
  from assms(2,4) have
    hid: "inherited h x0 = Inr Undefined" "inherited h x2 = Inr Undefined"
    by (auto simp: validTransition_def hidden_def)
  from dfaAddTransition_hidden[OF hid, of tbl x1] look
  have "dfaAddTransition h tbl (x0, x1, x2) = (h, Inl (NonDeterministic x0 x1 x2))"
    by simp
  with tbl assms(4) show ?thesis
    by (simp add: validateTransitionsDFA_forEach_append checkTransition_tuple)
qed

lemma DFA_constructor_valid:
  assumes "validSpec alph sts init fin ts" and "hidden h (set sts \<union> set alph)"
    and "distinct (map pairOf ts)"
  shows "\<exists>d. DFA_constructor h (Some (makeSpec alph sts init fin ts)) = (h, Inr d) \<and>
           DFA_getCurrentState d = State (Str init) \<and> \<not> DFA_isErrorState d \<and>
           (\<forall>f a t. dfaLookup (dfa.transitions d) f a = Some t \<longleftrightarrow> (f, t, a) \<in> set ts)"
proof -
  from assms(1) have v: "list_all (validTransition (set sts) (set alph)) ts"
    by (simp add: validSpec_def)
  have "\<forall>(y0, y1, y2) \<in> set ts. dfaLookup Map.empty y0 y2 = None"
    by (simp add: dfaLookup_def split: prod.splits)
  from validateTransitionsDFA_forEach_valid[OF v assms(2,3) this] obtain tbl where
    "validateTransitionsDFA_forEach (set sts) (set alph) (map tuple ts) h Map.empty = (h, Inr tbl)"
    and l: "\<And>f a t. dfaLookup tbl f a = Some t \<longleftrightarrow> (f, t, a) \<in> set ts"
    by (auto simp: dfaLookup_def)
  then have "validateTransitionsDFA h (makeSpec alph sts init fin ts) (set sts) (set alph) =
               (h, Inr tbl)"
    by (simp add: validateTransitionsDFA_def makeSpec_def)
  moreover have "spec.initialState (makeSpec alph sts init fin ts) = JStr init"
    by (simp add: makeSpec_def)
  ultimately show ?thesis using l
    by (simp add: DFA_constructor_def validSpec_validators[OF assms(1)]
          DFA_getCurrentState_def DFA_isErrorState_def)
qed

lemma DFA_transition_hidden:
  assumes "\<not> DFA_isErrorState d" and "a \<in> dfa.alphabet d"
    and "DFA_getCurrentState d = State (Str s)"
    and "inherited g s = Inr Undefined" and "inherited g a = Inr Undefined"
  shows "DFA_transition g d (JStr a) =
           Inr (case dfaLookup (dfa.transitions d) s a of
                  None \<Rightarrow> d\<lparr>currentState := ErrorState, isInErrorState := True\<rparr>
                | Some t \<Rightarrow> d\<lparr>currentState := State (Str t)\<rparr>)"
  using assms
  by (simp add: DFA_transition_def DFA_getCurrentState_def stateKey_def toPropertyKey_def
        dfaRead_def plainGet_hidden dfaLookup_def split: option.splits)

lemma NFA_transition_union_hidden:
  assumes "hidden g (nfa.states n \<union> nfa.alphabet n)" and "a \<in> nfa.alphabet n"
    and "NFA_getCurrentStates n = map Str ss" and "set ss \<subseteq> nfa.states n"
  shows "\<exists>n'. NFA_transition g n (JStr a) = Inr n' \<and>
           set (NFA_getCurrentStates n') =
             Str ` (\<Union>s \<in> set ss. set (nfaTargets (nfa.transitions n) s a))"
  using NFA_transition_hidden[OF assms(1,2), of ss] assms(3,4)
  by (auto simp: NFA_getCurrentStates_def)

section \<open>Names that are visible through the prototype\<close>

text \<open>
  Where a row has no own entry under a name and \<open>Object.prototype\<close> offers a member
  under it, the member is taken for the entry: the DFA makes it its current state, the NFA
  calls \<open>forEach\<close> on it, and the builders find the pair taken or call \<open>push\<close>
  on the member.
\<close>

lemma DFA_transition_visible:
  assumes "\<not> DFA_isErrorState d" and "a \<in> dfa.alphabet d"
    and "DFA_getCurrentState d = State (Str s)"
    and "dfa.transitions d s = Some row" and "row a = None"
    and "inherited g a = Inr v" and "v \<noteq> Undefined"
  shows "DFA_transition g d (JStr a) = Inr (d\<lparr>currentState := State v\<rparr>)"
  using assms
  by (cases v)
     (simp_all add: DFA_transition_def DFA_getCurrentState_def stateKey_def toPropertyKey_def
        dfaRead_def plainGet_def)

lemma dfaAddTransition_visible:
  assumes "result x0 = Some row" and "row x2 = None"
    and "inherited h x2 = Inr v" and "v \<noteq> Undefined"
  shows "dfaAddTransition h result (x0, x1, x2) = (h, Inl (NonDeterministic x0 x1 x2))"
  using assms
  by (cases v) (simp_all add: dfaAddTransition_def plainGet_def)

lemma nfaPushed_visible:
  assumes "tbl s = Some row" and "row a = None"
    and "inherited g a = Inr v" and "v \<noteq> Undefined"
  shows "nfaPushed g tbl a (Str s) =
           (case callForEach g v of Inl e \<Rightarrow> Inl e | Inr ys \<Rightarrow> Inr (map State ys))"
  using assms
  by (cases v) (simp_all add: nfaPushed_def toPropertyKey_def plainGet_def)

lemma nfaRowPush_visible:
  assumes "row x2 = None" and "inherited h x2 = Inr v" and "v \<noteq> Undefined"
  shows "nfaRowPush h row x2 x1 =
           (case callPush h v (Str x1) of Inl e \<Rightarrow> (h, Inl e) | Inr h' \<Rightarrow> (h', Inr row))"
  using assms
  by (cases v) (simp_all add: nfaRowPush_def plainGet_def)

section \<open>The running example, evaluated\<close>

lemmas validate_defs = validateDFAProperties_def validateAlphabet_def validateStates_def
  validateInitialState_def validateFinalStates_def trim_def isWhiteSpace_def
  checkTransition_def tuple_def makeSpec_def exampleSpec_def

lemmas heap_defs = inherited_def getProperty_def readProperty_def findProperty.simps
  ownProperty_def plainGet_def plainSet_def exampleHeap_def exampleObjects_def
  builtinFunction_def emptyObject_def behaviourOf_def callForEach_def callPush_def
  toPropertyKey_def stateKey_def

lemmas build_defs = DFA_constructor_def NFA_constructor_def validateTransitionsDFA_def
  validateTransitionsNFA_def dfaAddTransition_def nfaAddTransition_def nfaRowPush_def
  nfaForeignPush_def DFA_stateAfter_def NFA_statesAfter_def DFA_transition_def
  NFA_transition_def DFA_isErrorState_def NFA_isErrorState_def DFA_getCurrentState_def
  NFA_getCurrentStates_def dfaRead_def nfaPushed_def

lemma exampleHeap_names:
  "inherited exampleHeap ''a'' = Inr Undefined"
  "inherited exampleHeap ''b'' = Inr Undefined"
  "inherited exampleHeap ''s1'' = Inr Undefined"
  "inherited exampleHeap ''s2'' = Inr Undefined"
  "inherited exampleHeap ''s3'' = Inr Undefined"
  "inherited exampleHeap ''toString'' = Inr (Ref 7)"
  by (simp_all add: heap_defs)

lemma exampleHeap_hidden: "hidden exampleHeap ({''s1'', ''s2'', ''s3''} \<union> {''a'', ''b''})"
  by (simp add: hidden_def exampleHeap_names)

lemma exampleHeap_toString:
  "getProperty exampleHeap (Ref 7) ''forEach'' = Inr Undefined"
  "getProperty exampleHeap (Ref 7) ''push'' = Inr Undefined"
  "behaviourOf exampleHeap Undefined = None"
  by (simp_all add: heap_defs)

lemma exampleSpec_sets:
  "validateDFAProperties (Some (exampleSpec ts)) = Inr ()"
  "validateAlphabet (exampleSpec ts) = Inr {''a'', ''b''}"
  "validateStates (exampleSpec ts) = Inr {''s1'', ''s2'', ''s3''}"
  "validateInitialState (exampleSpec ts) {''s1'', ''s2'', ''s3''} = Inr ()"
  "validateFinalStates (exampleSpec ts) {''s1'', ''s2'', ''s3''} = Inr {''s3''}"
  "spec.initialState (exampleSpec ts) = JStr ''s1''"
  "spec.transitions (exampleSpec ts) = JArr (map tuple ts)"
  by (simp_all add: validate_defs insert_commute)

lemma exampleDFA_constructed:
  "DFA_constructor exampleHeap (Some (exampleSpec [(''s1'', ''s2'', ''a''), (''s2'', ''s3'', ''b'')])) =
     (exampleHeap, Inr exampleDFA)"
  by (simp add: DFA_constructor_def exampleSpec_sets validateTransitionsDFA_def
        checkTransition_def tuple_def dfaAddTransition_def exampleDFA_def
        plainGet_hidden plainSet_hidden exampleHeap_names)

lemma exampleNFA_constructed:
  "NFA_constructor exampleHeap (Some (exampleSpec [(''s1'', ''s2'', ''a''), (''s1'', ''s3'', ''a'')])) =
     (exampleHeap, Inr exampleNFA)"
  by (simp add: NFA_constructor_def exampleSpec_sets validateTransitionsNFA_def
        checkTransition_def tuple_def nfaAddTransition_hidden nfaAddOwn_def exampleNFA_def
        exampleHeap_names)

lemma NFA_constructor_exampleSpec:
  "NFA_constructor exampleHeap (Some (exampleSpec ts)) =
     (case validateTransitionsNFA_forEach {''s1'', ''s2'', ''s3''} {''a'', ''b''} (map tuple ts)
             exampleHeap Map.empty of
        (h, Inl e) \<Rightarrow> (h, Inl e)
      | (h, Inr tbl) \<Rightarrow>
          (h, Inr \<lparr>nfa.alphabet = {''a'', ''b''}, nfa.states = {''s1'', ''s2'', ''s3''},
                    nfa.initialState = ''s1'', nfa.finalStates = {''s3''},
                    nfa.transitions = tbl, currentStates = [Str ''s1'']\<rparr>))"
  by (simp add: NFA_constructor_def exampleSpec_sets validateTransitionsNFA_def)

lemma exampleNFA_run_a:
  "NFA_run exampleNFA [(exampleHeap, JStr ''a'')] =
     Inr (exampleNFA\<lparr>currentStates := [Str ''s2'', Str ''s3'']\<rparr>)"
  by (simp add: NFA_transition_def NFA_isErrorState_def nfaPushed_hidden exampleHeap_names
        nfaLookup_def exampleNFA_def)

lemma exampleDFA_run_ab:
  "DFA_run exampleDFA [(exampleHeap, JStr ''a''), (exampleHeap, JStr ''b'')] =
     Inr (exampleDFA\<lparr>currentState := State (Str ''s3'')\<rparr>)"
  by (simp add: DFA_transition_def DFA_isErrorState_def dfaRead_def stateKey_def
        toPropertyKey_def plainGet_hidden exampleHeap_names exampleDFA_def)

lemma exampleDFA_run_b: "DFA_run exampleDFA [(exampleHeap, JStr ''b'')] = Inr deadDFA"
  by (simp add: DFA_transition_def DFA_isErrorState_def dfaRead_def stateKey_def
        toPropertyKey_def plainGet_hidden exampleHeap_names exampleDFA_def deadDFA_def)

lemma decimal_0: "decimal 0 = ''0''"
  by (simp add: decimal.simps)

lemma arrayIndex_0: "arrayIndex ''0'' = Some 0"
  by (simp add: arrayIndex_def digitValue_def)

lemma arrayIndex_a: "arrayIndex ''a'' = None"
  by (simp add: arrayIndex_def digitValue_def)

text \<open>
  An array that one automaton leaves in \<open>Object.prototype\<close> is read by the rows of
  every automaton: the transition from the state \<open>__proto__\<close> is stored there, and
  the row of s1, which has no entry for a, passes its target on.
\<close>

lemma shared_array_example:
  "NFA_statesAfter exampleHeap
     (Some (makeSpec [''a'', ''b''] [''s1'', ''s2'', ''__proto__''] ''s1'' [''s2'']
              [(''__proto__'', ''s2'', ''a''), (''s1'', ''s1'', ''b'')]))
     [JStr ''a''] = Inr [Str ''s2'']"
  by (simp add: build_defs validate_defs heap_defs setProperty_def newArray_def defineOwn_def
        decimal_0 arrayIndex_0 arrayIndex_a Let_def insert_commute)

section \<open>The claims\<close>

text \<open>
  Claim C1 as stated fails. A transition declared twice is stored twice and both copies
  become active; and two active states with a common target each contribute it.
\<close>

theorem NFA_duplicates_counterexample:
  "NFA_statesAfter exampleHeap (Some (exampleSpec [(''s1'', ''s2'', ''a''), (''s1'', ''s2'', ''a'')]))
       [JStr ''a''] = Inr [Str ''s2'', Str ''s2''] \<and>
   \<not> distinct [Str ''s2'', Str ''s2''] \<and>
   NFA_statesAfter exampleHeap (Some (exampleSpec [(''s1'', ''s2'', ''a''), (''s1'', ''s3'', ''a''),
                                         (''s2'', ''s3'', ''a''), (''s3'', ''s3'', ''a'')]))
       [JStr ''a'', JStr ''a''] = Inr [Str ''s3'', Str ''s3''] \<and>
   \<not> distinct [Str ''s3'', Str ''s3'']"
  by (simp add: NFA_statesAfter_def NFA_constructor_exampleSpec checkTransition_def tuple_def
        nfaAddTransition_hidden nfaAddOwn_def exampleHeap_names NFA_transition_def
        NFA_isErrorState_def NFA_getCurrentStates_def nfaPushed_hidden nfaLookup_def Let_def)

text \<open>
  Claim C1, as amended. The active states are an array and nothing removes a repeated entry.
  Take an NFA built from a specification and advanced by any word, where no state or symbol
  name of the automaton is visible through \<open>Object.prototype\<close> in the heaps of the
  construction and of the calls. A call of \<open>transition\<close> with a symbol of the alphabet
  replaces the array by the concatenation, over its entries \<open>s\<close> in order, of the targets
  of the declared transitions from \<open>s\<close> on that symbol, in declaration order: one entry per
  declared transition and per active entry.
\<close>

theorem NFA_transition_keeps_duplicates:
  assumes "NFA_constructor h arg = (h', Inr n0)"
    and "hidden h (nfa.states n0 \<union> nfa.alphabet n0)"
    and "NFA_run n0 w = Inr n"
    and "\<forall>hx \<in> set w. hidden (fst hx) (nfa.states n0 \<union> nfa.alphabet n0)"
    and "hidden g (nfa.states n0 \<union> nfa.alphabet n0)"
    and "a \<in> nfa.alphabet n0"
  shows "\<exists>sp ts ss. arg = Some sp \<and> spec.transitions sp = JArr (map tuple ts) \<and>
           NFA_getCurrentStates n = map Str ss \<and>
           NFA_transition g n (JStr a) =
             Inr (n\<lparr>currentStates :=
                      map Str (concat (map (\<lambda>s. declaredTargets ts s a) ss))\<rparr>)"
proof -
  from NFA_constructor_Inr[OF assms(1)] obtain sp init where
    sp: "arg = Some sp" and
    ini: "validateInitialState sp (nfa.states n0) = Inr ()" "spec.initialState sp = JStr init" and
    tbl: "validateTransitionsNFA h sp (nfa.states n0) (nfa.alphabet n0) =
            (h', Inr (nfa.transitions n0))" and
    cur: "currentStates n0 = [Str init]"
    by blast
  from ini have init: "init \<in> nfa.states n0"
    by (auto simp: validateInitialState_def split: if_splits)
  from validateTransitionsNFA_hidden[OF tbl assms(2)] obtain ts where
    ts: "spec.transitions sp = JArr (map tuple ts)" and
    v: "\<forall>t \<in> set ts. validTransition (nfa.states n0) (nfa.alphabet n0) t" and
    tg: "\<And>s a. nfaTargets (nfa.transitions n0) s a = declaredTargets ts s a"
    by blast
  have wf: "\<forall>s a. set (nfaTargets (nfa.transitions n0) s a) \<subseteq> nfa.states n0"
    using declaredTargets_valid[OF v] by (simp add: tg)
  from NFA_run_hidden[OF assms(3,4), of "[init]"] cur init wf obtain ss where
    same: "nfa.states n = nfa.states n0" "nfa.alphabet n = nfa.alphabet n0"
          "nfa.transitions n = nfa.transitions n0" and
    ss: "currentStates n = map Str ss" "set ss \<subseteq> nfa.states n0"
    by auto
  from NFA_transition_hidden[of g n a ss] assms(5,6) same ss
  have "NFA_transition g n (JStr a) =
          Inr (n\<lparr>currentStates := map Str (concat (map (\<lambda>s. declaredTargets ts s a) ss))\<rparr>)"
    by (simp add: tg)
  with sp ts ss(1) show ?thesis
    by (auto simp: NFA_getCurrentStates_def)
qed

text \<open>The theorem at the example automata.\<close>

theorem NFA_transition_keeps_duplicates_witness:
  "NFA_constructor exampleHeap
     (Some (exampleSpec [(''s1'', ''s2'', ''a''), (''s1'', ''s3'', ''a'')])) =
     (exampleHeap, Inr exampleNFA) \<and>
   inherited exampleHeap ''s1'' = Inr Undefined \<and> inherited exampleHeap ''s2'' = Inr Undefined \<and>
   inherited exampleHeap ''s3'' = Inr Undefined \<and> inherited exampleHeap ''a'' = Inr Undefined \<and>
   inherited exampleHeap ''b'' = Inr Undefined \<and>
   NFA_run exampleNFA [(exampleHeap, JStr ''a'')] =
     Inr (exampleNFA\<lparr>currentStates := [Str ''s2'', Str ''s3'']\<rparr>) \<and>
   ''b'' \<in> nfa.alphabet exampleNFA \<and>
   NFA_transition exampleHeap (exampleNFA\<lparr>currentStates := [Str ''s2'', Str ''s3'']\<rparr>)
     (JStr ''b'') = Inr (exampleNFA\<lparr>currentStates := []\<rparr>)"
proof -
  let ?ts = "[(''s1'', ''s2'', ''a''), (''s1'', ''s3'', ''a'')]"
  let ?n = "exampleNFA\<lparr>currentStates := [Str ''s2'', Str ''s3'']\<rparr>"
  have h1: "NFA_constructor exampleHeap (Some (exampleSpec ?ts)) = (exampleHeap, Inr exampleNFA)"
    by (rule exampleNFA_constructed)
  have h2: "hidden exampleHeap (nfa.states exampleNFA \<union> nfa.alphabet exampleNFA)"
    using exampleHeap_hidden by (simp add: exampleNFA_def)
  have h3: "NFA_run exampleNFA [(exampleHeap, JStr ''a'')] = Inr ?n"
    by (rule exampleNFA_run_a)
  have h4: "\<forall>hx \<in> set [(exampleHeap, JStr ''a'')].
              hidden (fst hx) (nfa.states exampleNFA \<union> nfa.alphabet exampleNFA)"
    using h2 by simp
  have h5: "''b'' \<in> nfa.alphabet exampleNFA" by (simp add: exampleNFA_def)
  from NFA_transition_keeps_duplicates[OF h1 h2 h3 h4 h2 h5] obtain sp ts ss where
    sp: "Some (exampleSpec ?ts) = Some sp" and
    ts: "spec.transitions sp = JArr (map tuple ts)" and
    ss: "NFA_getCurrentStates ?n = map Str ss" and
    tr: "NFA_transition exampleHeap ?n (JStr ''b'') =
           Inr (?n\<lparr>currentStates := map Str (concat (map (\<lambda>s. declaredTargets ts s ''b'') ss))\<rparr>)"
    by blast
  have inj: "inj tuple" by (auto simp: inj_def tuple_def)
  from sp ts have "map tuple ts = map tuple ?ts"
    using exampleSpec_sets(7)[of ?ts] by simp
  then have ts': "ts = ?ts" by (simp only: inj_map_eq_map[OF inj])
  have "inj Str" by (auto simp: inj_def)
  moreover from ss have "map Str ss = map Str [''s2'', ''s3'']"
    by (simp add: NFA_getCurrentStates_def)
  ultimately have ss': "ss = [''s2'', ''s3'']" by (simp only: inj_map_eq_map)
  from tr have "NFA_transition exampleHeap ?n (JStr ''b'') = Inr (exampleNFA\<lparr>currentStates := []\<rparr>)"
    by (simp add: ts' ss' declaredTargets_def)
  with h1 h3 h5 show ?thesis by (simp add: exampleHeap_names)
qed

text \<open>
  Claim C2. In every state of a DFA or an NFA, the error state and the empty set included,
  and in every heap, \<open>transition\<close> with a value that is not a member of the alphabet
  throws the unknown-symbol error; nothing is read or assigned before the throw.
\<close>

theorem transition_unknown_symbol:
  "(\<not> has (dfa.alphabet d) x \<longrightarrow> DFA_transition h d x = Inl (SymbolNotValid x)) \<and>
   (\<not> has (nfa.alphabet n) y \<longrightarrow> NFA_transition g n y = Inl (SymbolNotValid y))"
  by (simp add: DFA_transition_not_has NFA_transition_not_has)

text \<open>The theorem at the example automata.\<close>

theorem transition_unknown_symbol_witness:
  "\<not> has (dfa.alphabet deadDFA) (JStr ''c'') \<and>
   DFA_transition exampleHeap deadDFA (JStr ''c'') = Inl (SymbolNotValid (JStr ''c'')) \<and>
   \<not> has (nfa.alphabet deadNFA) (JNum 0) \<and>
   NFA_transition exampleHeap deadNFA (JNum 0) = Inl (SymbolNotValid (JNum 0))"
  using transition_unknown_symbol[of deadDFA "JStr ''c''" exampleHeap deadNFA "JNum 0" exampleHeap]
  by (simp add: deadDFA_def deadNFA_def exampleDFA_def exampleNFA_def)

text \<open>
  Claim C3 (a DFA that is not in the error state and reads a symbol of the alphabet moves to
  the error state when the table has no entry for the current state and the symbol) fails
  on the code. The DFA with the alphabet toString, b and the one transition (s1, s2, b),
  built in the example heap, has no entry for s1 and toString; after
  \<open>transition('toString')\<close> its current state is the function that the row inherits
  under that name, and it is not in the error state.
\<close>

theorem DFA_transition_inherited_member:
  "DFA_stateAfter exampleHeap
     (Some (makeSpec [''toString'', ''b''] [''s1'', ''s2''] ''s1'' [''s2''] [(''s1'', ''s2'', ''b'')]))
     [] = Inr (State (Str ''s1''), False) \<and>
   DFA_stateAfter exampleHeap
     (Some (makeSpec [''toString'', ''b''] [''s1'', ''s2''] ''s1'' [''s2''] [(''s1'', ''s2'', ''b'')]))
     [JStr ''toString''] = Inr (State (Ref 7), False)"
  by (simp add: build_defs validate_defs heap_defs)

text \<open>
  Claim C4 (an active state without an entry for the symbol adds nothing to the new active
  set and causes no error) fails on the code. The NFA with the alphabet a, toString and the
  one transition (s1, s1, a), built in the example heap, has no entry for s1 and toString;
  \<open>transition('toString')\<close> calls \<open>forEach\<close> on the function that the row inherits
  under that name and throws a \<open>TypeError\<close>.
\<close>

theorem NFA_transition_inherited_member:
  "NFA_statesAfter exampleHeap
     (Some (makeSpec [''a'', ''toString''] [''s1''] ''s1'' [''s1''] [(''s1'', ''s1'', ''a'')]))
     [] = Inr [Str ''s1''] \<and>
   NFA_statesAfter exampleHeap
     (Some (makeSpec [''a'', ''toString''] [''s1''] ''s1'' [''s1''] [(''s1'', ''s1'', ''a'')]))
     [JStr ''toString''] = Inl JSTypeError"
  by (simp add: build_defs validate_defs heap_defs)

text \<open>
  Claim C5 (the construction of the DFA table fails with the non-determinism error on the
  first transition whose (from, symbol) pair already has an entry) fails on the code. Of the
  transitions (s1, s2, a), (s1, s3, toString) no two have the same pair, and the second one
  raises the non-determinism error: its row inherits a member named toString.
\<close>

theorem validateTransitionsDFA_inherited_member:
  "snd (validateTransitionsDFA exampleHeap
          (makeSpec [''a'', ''toString''] [''s1'', ''s2'', ''s3''] ''s1'' [''s3'']
             [(''s1'', ''s2'', ''a''), (''s1'', ''s3'', ''toString'')])
          {''s1'', ''s2'', ''s3''} {''a'', ''toString''}) =
     Inl (NonDeterministic ''s1'' ''s3'' ''toString'')"
  by (simp add: build_defs validate_defs heap_defs)

text \<open>
  Claim C6 (for every valid specification the constructed DFA is at the initial state and
  the constructed NFA has the initial state as its one active state) fails on the code: for
  valid specifications that use the symbol toString nothing is constructed. The NFA
  constructor throws a \<open>TypeError\<close> at the transition (s1, s2, toString), and the DFA
  constructor throws the non-determinism error at the transitions (s1, s2, a),
  (s1, s3, toString).
\<close>

theorem constructor_rejects_valid_spec:
  "snd (NFA_constructor exampleHeap
          (Some (makeSpec [''toString''] [''s1'', ''s2''] ''s1'' [''s2'']
                   [(''s1'', ''s2'', ''toString'')]))) = Inl JSTypeError \<and>
   snd (DFA_constructor exampleHeap
          (Some (makeSpec [''a'', ''toString''] [''s1'', ''s2'', ''s3''] ''s1'' [''s3'']
                   [(''s1'', ''s2'', ''a''), (''s1'', ''s3'', ''toString'')]))) =
     Inl (NonDeterministic ''s1'' ''s3'' ''toString'')"
  by (simp add: build_defs validate_defs heap_defs insert_commute)

text \<open>
  Claim C7. A DFA in the error state stays as it is, error flag included, under every
  sequence of calls of \<open>transition\<close> with symbols of the alphabet, in whatever heaps.
\<close>

theorem DFA_error_absorbing:
  assumes "DFA_isErrorState d" and "\<forall>hx \<in> set w. has (dfa.alphabet d) (snd hx)"
  shows "DFA_run d w = Inr d"
  using assms by (rule DFA_run_error)

text \<open>The theorem at the example automata.\<close>

theorem DFA_error_absorbing_witness:
  "DFA_isErrorState deadDFA \<and> has (dfa.alphabet deadDFA) (JStr ''a'') \<and>
   has (dfa.alphabet deadDFA) (JStr ''b'') \<and>
   DFA_run deadDFA [(exampleHeap, JStr ''a''), (exampleHeap, JStr ''b'')] = Inr deadDFA"
proof -
  have h1: "DFA_isErrorState deadDFA"
    by (simp add: DFA_isErrorState_def deadDFA_def)
  have h2: "has (dfa.alphabet deadDFA) (JStr ''a'')" "has (dfa.alphabet deadDFA) (JStr ''b'')"
    by (simp_all add: deadDFA_def exampleDFA_def)
  then have h3: "\<forall>hx \<in> set [(exampleHeap, JStr ''a''), (exampleHeap, JStr ''b'')].
                   has (dfa.alphabet deadDFA) (snd hx)" by simp
  from DFA_error_absorbing[OF h1 h3] h1 h2 show ?thesis by simp
qed

text \<open>
  Claim C8. An NFA without active states stays as it is, with no active state, under every
  sequence of calls of \<open>transition\<close> with symbols of the alphabet, in whatever heaps.
\<close>

theorem NFA_empty_absorbing:
  assumes "NFA_isErrorState n" and "\<forall>hx \<in> set w. has (nfa.alphabet n) (snd hx)"
  shows "NFA_run n w = Inr n \<and> NFA_getCurrentStates n = []"
  using assms by (simp add: NFA_run_error NFA_isErrorState_def NFA_getCurrentStates_def)

text \<open>The theorem at the example automata.\<close>

theorem NFA_empty_absorbing_witness:
  "NFA_isErrorState deadNFA \<and> has (nfa.alphabet deadNFA) (JStr ''a'') \<and>
   has (nfa.alphabet deadNFA) (JStr ''b'') \<and>
   NFA_run deadNFA [(exampleHeap, JStr ''a''), (exampleHeap, JStr ''b'')] = Inr deadNFA \<and>
   NFA_getCurrentStates deadNFA = []"
proof -
  have h1: "NFA_isErrorState deadNFA"
    by (simp add: NFA_isErrorState_def deadNFA_def)
  have h2: "has (nfa.alphabet deadNFA) (JStr ''a'')" "has (nfa.alphabet deadNFA) (JStr ''b'')"
    by (simp_all add: deadNFA_def exampleNFA_def)
  then have h3: "\<forall>hx \<in> set [(exampleHeap, JStr ''a''), (exampleHeap, JStr ''b'')].
                   has (nfa.alphabet deadNFA) (snd hx)" by simp
  from NFA_empty_absorbing[OF h1 h3] h1 h2 show ?thesis by simp
qed

text \<open>
  Claim C9. For a DFA built by the constructor and advanced by any word,
  \<open>isAcceptingState\<close> is true exactly when the DFA is not in the error state and its
  current state is a final state; in the error state it is false.
\<close>

theorem DFA_isAcceptingState_iff:
  assumes "DFA_constructor h arg = (h', Inr d0)" and "DFA_run d0 w = Inr d"
  shows "DFA_isAcceptingState d =
           (\<not> DFA_isErrorState d \<and>
            (\<exists>s. DFA_getCurrentState d = State (Str s) \<and> s \<in> dfa.finalStates d)) \<and>
         (DFA_isErrorState d \<longrightarrow> \<not> DFA_isAcceptingState d)"
proof -
  from assms have "DFA_consistent d"
    by (blast intro: DFA_constructor_consistent DFA_run_consistent)
  then have c: "isInErrorState d = (currentState d = ErrorState)"
    by (simp add: DFA_consistent_def)
  show ?thesis
  proof (cases "currentState d")
    case ErrorState
    with c show ?thesis
      by (simp add: DFA_isAcceptingState_def DFA_isErrorState_def DFA_getCurrentState_def)
  next
    case (State v)
    with c show ?thesis
      by (cases v)
         (simp_all add: DFA_isAcceptingState_def DFA_isErrorState_def DFA_getCurrentState_def)
  qed
qed

text \<open>The theorem at the example automata.\<close>

theorem DFA_isAcceptingState_iff_witness:
  "DFA_constructor exampleHeap
     (Some (exampleSpec [(''s1'', ''s2'', ''a''), (''s2'', ''s3'', ''b'')])) =
     (exampleHeap, Inr exampleDFA) \<and>
   DFA_run exampleDFA [(exampleHeap, JStr ''a''), (exampleHeap, JStr ''b'')] =
     Inr (exampleDFA\<lparr>currentState := State (Str ''s3'')\<rparr>) \<and>
   DFA_isAcceptingState (exampleDFA\<lparr>currentState := State (Str ''s3'')\<rparr>) \<and>
   DFA_run exampleDFA [(exampleHeap, JStr ''b'')] = Inr deadDFA \<and>
   DFA_isErrorState deadDFA \<and> \<not> DFA_isAcceptingState deadDFA"
proof -
  note c = exampleDFA_constructed
  from DFA_isAcceptingState_iff[OF c exampleDFA_run_ab]
  have "DFA_isAcceptingState (exampleDFA\<lparr>currentState := State (Str ''s3'')\<rparr>)"
    by (simp add: DFA_isErrorState_def DFA_getCurrentState_def exampleDFA_def)
  moreover have e: "DFA_isErrorState deadDFA"
    by (simp add: DFA_isErrorState_def deadDFA_def)
  moreover from DFA_isAcceptingState_iff[OF c exampleDFA_run_b] e
  have "\<not> DFA_isAcceptingState deadDFA" by blast
  ultimately show ?thesis using c exampleDFA_run_ab exampleDFA_run_b by simp
qed

text \<open>
  Claim C10. \<open>isAcceptingState\<close> of an NFA is true exactly when every active state is a
  final state. With no active state it is true, and so is \<open>isErrorState\<close>.
\<close>

theorem NFA_isAcceptingState_every:
  "NFA_isAcceptingState n =
     (\<forall>v \<in> set (NFA_getCurrentStates n). hasVal (nfa.finalStates n) v) \<and>
   (NFA_getCurrentStates n = [] \<longrightarrow> NFA_isAcceptingState n \<and> NFA_isErrorState n)"
  by (simp add: NFA_isAcceptingState_all)
     (simp add: NFA_isErrorState_def NFA_getCurrentStates_def)

text \<open>The theorem at the example automata.\<close>

theorem NFA_isAcceptingState_every_witness:
  "\<not> NFA_isAcceptingState (exampleNFA\<lparr>currentStates := [Str ''s2'', Str ''s3'']\<rparr>) \<and>
   NFA_isAcceptingState (exampleNFA\<lparr>currentStates := [Str ''s3'', Str ''s3'']\<rparr>) \<and>
   NFA_getCurrentStates deadNFA = [] \<and> NFA_isAcceptingState deadNFA \<and> NFA_isErrorState deadNFA"
  using NFA_isAcceptingState_every[of "exampleNFA\<lparr>currentStates := [Str ''s2'', Str ''s3'']\<rparr>"]
    NFA_isAcceptingState_every[of "exampleNFA\<lparr>currentStates := [Str ''s3'', Str ''s3'']\<rparr>"]
    NFA_isAcceptingState_every[of deadNFA]
  by (simp add: NFA_getCurrentStates_def deadNFA_def exampleNFA_def)

end
